theory Spec2Isabelle
  imports Complex_Main
begin

section \<open>Values, exceptions and the platform\<close>

text \<open>
  The module \<^verbatim>\<open>src/lib/supabase.ts\<close> keeps an authentication session in the browser's
  \<^verbatim>\<open>localStorage\<close> and wraps the calls of an external identity service. Sessions are
  typed \<^verbatim>\<open>any\<close> in the source and travel through \<^verbatim>\<open>JSON.stringify\<close> and
  \<^verbatim>\<open>JSON.parse\<close>, so the values of the model are the JSON values, with rational
  numbers. A value of the language is a \<open>json option\<close>: \<open>None\<close> is \<^verbatim>\<open>undefined\<close>,
  \<open>Some JNull\<close> is \<^verbatim>\<open>null\<close>.
\<close>

datatype json =
    JNull
  | JBool bool
  | JNum rat
  | JStr string
  | JArr "json list"
  | JObj "(string \<times> json) list"

type_synonym val = "json option"

abbreviation js_undefined :: val where
  "js_undefined \<equiv> None"

abbreviation js_null :: val where
  "js_null \<equiv> Some JNull"

text \<open>What a \<^verbatim>\<open>try\<close> block can catch: the exceptions of the language that the
  module's own code can raise, the error object of the identity service's result envelope
  (thrown again by \<^verbatim>\<open>throw error\<close>), and a rejected call (network failure).\<close>

datatype exn = TypeError | SyntaxError | URIError | AuthError string | NetworkError string

text \<open>
  The platform functions the module calls but does not define: \<^verbatim>\<open>JSON.parse\<close> (which
  throws a SyntaxError on a text that is not JSON), \<^verbatim>\<open>JSON.stringify\<close>,
  \<^verbatim>\<open>encodeURIComponent\<close> (which throws a URIError on a string with a lone
  surrogate), the rounding of an exact result to the number type of the language (a
  double: \<^verbatim>\<open>a / b\<close> is the rounded quotient), and the comparison \<^verbatim>\<open>x > v\<close> of a
  number with a value that is not a number (the language coerces \<open>v\<close> first). The
  numbers of the model are the rationals that are doubles; \<^verbatim>\<open>Date.now()\<close> is an
  integer. The theorems hold for every such platform.
\<close>

record platform =
  JSON_parse :: "string \<Rightarrow> exn + json"
  JSON_stringify :: "json \<Rightarrow> string"
  encodeURIComponent :: "string \<Rightarrow> exn + string"
  js_double :: "rat \<Rightarrow> rat"
  js_gt :: "rat \<Rightarrow> json \<Rightarrow> bool"

text \<open>What an operation reads from its surroundings while it runs: the readings of
  \<^verbatim>\<open>Date.now()\<close> (in \<^verbatim>\<open>getStoredSession\<close>, and the two of \<^verbatim>\<open>saveSession\<close>),
  of \<^verbatim>\<open>new Date().toISOString()\<close> and of the resolved time zone. An operation of
  the facade makes each reading once at most on every path it can take.\<close>

record readings =
  load_time :: int
  save_time :: int
  stamp_time :: int
  iso_time :: string
  time_zone :: string

text \<open>Truthiness, as \<^verbatim>\<open>if (v)\<close>, \<^verbatim>\<open>!v\<close>, \<^verbatim>\<open>a && b\<close> and \<^verbatim>\<open>a || b\<close> test it.\<close>

fun truthy :: "val \<Rightarrow> bool" where
  "truthy None = False"
| "truthy (Some JNull) = False"
| "truthy (Some (JBool b)) = b"
| "truthy (Some (JNum n)) = (n \<noteq> 0)"
| "truthy (Some (JStr s)) = (s \<noteq> [])"
| "truthy (Some (JArr xs)) = True"
| "truthy (Some (JObj kvs)) = True"

text \<open>The property read \<^verbatim>\<open>v.k\<close>, for the keys the module reads (none of them a
  property of a primitive's or an array's prototype): a TypeError on \<^verbatim>\<open>undefined\<close>
  and \<^verbatim>\<open>null\<close>, the field of an object, \<^verbatim>\<open>undefined\<close> elsewhere.\<close>

fun get_prop :: "val \<Rightarrow> string \<Rightarrow> exn + val" where
  "get_prop None k = Inl TypeError"
| "get_prop (Some JNull) k = Inl TypeError"
| "get_prop (Some (JObj kvs)) k = Inr (map_of kvs k)"
| "get_prop (Some v) k = Inr None"

text \<open>Writing a field of an object: in place when the object has the key, at the end
  otherwise.\<close>

fun set_field :: "(string \<times> json) list \<Rightarrow> string \<Rightarrow> json \<Rightarrow> (string \<times> json) list" where
  "set_field [] k v = [(k, v)]"
| "set_field ((k', v') # kvs) k v =
     (if k' = k then (k, v) # kvs else (k', v') # set_field kvs k v)"

text \<open>The assignment \<^verbatim>\<open>o.k = v\<close> in a module (strict mode), as \<^verbatim>\<open>JSON.stringify\<close>
  sees the object afterwards: a property set to \<^verbatim>\<open>undefined\<close> is left out, a named
  property of an array is not part of its JSON; a TypeError on \<^verbatim>\<open>undefined\<close>,
  \<^verbatim>\<open>null\<close> and the primitives.\<close>

fun set_prop :: "val \<Rightarrow> string \<Rightarrow> val \<Rightarrow> exn + json" where
  "set_prop (Some (JObj kvs)) k (Some v) = Inr (JObj (set_field kvs k v))"
| "set_prop (Some (JObj kvs)) k None = Inr (JObj (filter (\<lambda>kv. fst kv \<noteq> k) kvs))"
| "set_prop (Some (JArr xs)) k v = Inr (JArr xs)"
| "set_prop w k v = Inl TypeError"

text \<open>Sequencing inside a \<^verbatim>\<open>try\<close> block: the first exception ends the block.\<close>

fun then_do :: "exn + 'a \<Rightarrow> ('a \<Rightarrow> exn + 'b) \<Rightarrow> exn + 'b" where
  "then_do (Inl e) f = Inl e"
| "then_do (Inr x) f = f x"

text \<open>An object literal as \<^verbatim>\<open>JSON.stringify\<close> sees it: a property whose value is
  \<^verbatim>\<open>undefined\<close> is left out.\<close>

fun object_literal :: "(string \<times> val) list \<Rightarrow> (string \<times> json) list" where
  "object_literal [] = []"
| "object_literal ((k, None) # fs) = object_literal fs"
| "object_literal ((k, Some v) # fs) = (k, v) # object_literal fs"

text \<open>\<^verbatim>\<open>Date.now().toString()\<close>: the decimal digits of an integer.\<close>

fun digits :: "nat \<Rightarrow> string" where
  "digits n =
     (if n < 10 then [char_of (48 + n)]
      else digits (n div 10) @ [char_of (48 + n mod 10)])"

definition toString :: "int \<Rightarrow> string" where
  "toString i = (if i < 0 then CHR ''-'' # digits (nat (- i)) else digits (nat i))"

text \<open>The own enumerable properties that the spread \<^verbatim>\<open>{...v}\<close> copies: the fields of
  an object, the indexed elements of an array, the indexed characters of a string,
  nothing of the other values.\<close>

fun indexed :: "nat \<Rightarrow> json list \<Rightarrow> (string \<times> json) list" where
  "indexed i [] = []"
| "indexed i (x # xs) = (digits i, x) # indexed (Suc i) xs"

fun spread :: "val \<Rightarrow> (string \<times> json) list" where
  "spread (Some (JObj kvs)) = kvs"
| "spread (Some (JArr xs)) = indexed 0 xs"
| "spread (Some (JStr s)) = indexed 0 (map (\<lambda>c. JStr [c]) s)"
| "spread v = []"

section \<open>The environment: a window with its local storage, or none\<close>

text \<open>The local storage is a map from keys to strings; its reads, writes and removals
  do not fail. Every function of the module tests \<^verbatim>\<open>typeof window\<close> before it
  touches the storage.\<close>

type_synonym storage = "string \<Rightarrow> string option"

datatype env = NoWindow | Window storage

definition getItem :: "env \<Rightarrow> string \<Rightarrow> string option" where
  "getItem e k = (case e of NoWindow \<Rightarrow> None | Window st \<Rightarrow> st k)"

section \<open>Session Cache (sessionManager)\<close>

text \<open>The object literal \<^verbatim>\<open>sessionData\<close> of \<^verbatim>\<open>saveSession\<close>; \<open>t1\<close> is the
  reading of \<^verbatim>\<open>Date.now()\<close> for \<^verbatim>\<open>saved_at\<close>.\<close>

definition sessionData :: "val \<Rightarrow> int \<Rightarrow> exn + json" where
  "sessionData session t1 =
     then_do (get_prop session ''user'') (\<lambda>user.
     then_do (get_prop session ''access_token'') (\<lambda>access_token.
     then_do (get_prop session ''refresh_token'') (\<lambda>refresh_token.
     then_do (get_prop session ''expires_at'') (\<lambda>expires_at.
     then_do (get_prop session ''expires_in'') (\<lambda>expires_in.
     then_do (get_prop session ''token_type'') (\<lambda>token_type.
       Inr (JObj (object_literal
             [(''user'', user),
              (''access_token'', access_token),
              (''refresh_token'', refresh_token),
              (''expires_at'', expires_at),
              (''expires_in'', expires_in),
              (''token_type'', token_type),
              (''saved_at'', Some (JNum (of_int t1)))]))))))))"

text \<open>The \<^verbatim>\<open>try\<close> block of \<^verbatim>\<open>saveSession\<close>: the three writes; \<open>t2\<close> is the second
  reading of \<^verbatim>\<open>Date.now()\<close>.\<close>

definition saveSession_try ::
  "platform \<Rightarrow> int \<Rightarrow> int \<Rightarrow> val \<Rightarrow> storage \<Rightarrow> exn + storage" where
  "saveSession_try P t1 t2 session st =
     then_do (sessionData session t1) (\<lambda>d.
       Inr (st(''kodex-session'' \<mapsto> JSON_stringify P d,
               ''kodex-auth-timestamp'' \<mapsto> toString t2,
               ''kodex-session-active'' \<mapsto> ''true'')))"

definition saveSession :: "platform \<Rightarrow> int \<Rightarrow> int \<Rightarrow> val \<Rightarrow> env \<Rightarrow> env" where
  "saveSession P t1 t2 session e =
     (case e of
        NoWindow \<Rightarrow> NoWindow
      | Window st \<Rightarrow>
          if truthy session then
            (case saveSession_try P t1 t2 session st of
               Inr st' \<Rightarrow> Window st'
             | Inl err \<Rightarrow> Window st)
          else Window st)"

text \<open>\<^verbatim>\<open>clearSession\<close>: the four removals; its \<^verbatim>\<open>catch\<close> has nothing to catch.\<close>

definition clearSession :: "env \<Rightarrow> env" where
  "clearSession e =
     (case e of
        NoWindow \<Rightarrow> NoWindow
      | Window st \<Rightarrow>
          Window (st(''kodex-session'' := None,
                     ''kodex-auth'' := None,
                     ''kodex-auth-timestamp'' := None,
                     ''kodex-session-active'' := None)))"

text \<open>\<^verbatim>\<open>session.expires_at && Date.now() / 1000 > session.expires_at\<close>, with \<open>now\<close> the
  reading of \<^verbatim>\<open>Date.now()\<close>; the quotient is the double nearest to the exact one.\<close>

fun gt_value :: "platform \<Rightarrow> rat \<Rightarrow> json \<Rightarrow> bool" where
  "gt_value P x (JNum n) = (x > n)"
| "gt_value P x v = js_gt P x v"

definition is_expired :: "platform \<Rightarrow> int \<Rightarrow> val \<Rightarrow> bool" where
  "is_expired P now expires_at =
     (truthy expires_at \<and>
      (case expires_at of
         None \<Rightarrow> False
       | Some v \<Rightarrow> gt_value P (js_double P (of_int now / 1000)) v))"

text \<open>The \<^verbatim>\<open>try\<close> block of \<^verbatim>\<open>getStoredSession\<close>: the value returned and the
  environment left, or the exception thrown (none of them after a write).\<close>

definition getStoredSession_try ::
  "platform \<Rightarrow> int \<Rightarrow> storage \<Rightarrow> exn + (val \<times> env)" where
  "getStoredSession_try P now st =
     (case st ''kodex-session'' of
        None \<Rightarrow> Inr (js_null, Window st)
      | Some stored \<Rightarrow>
          if stored = [] then Inr (js_null, Window st)
          else
            then_do (JSON_parse P stored) (\<lambda>session.
            then_do (get_prop (Some session) ''user'') (\<lambda>user.
              if \<not> truthy user then Inr (js_null, clearSession (Window st))
              else
            then_do (get_prop (Some session) ''access_token'') (\<lambda>access_token.
              if \<not> truthy access_token then Inr (js_null, clearSession (Window st))
              else
            then_do (get_prop (Some session) ''expires_at'') (\<lambda>expires_at.
              if is_expired P now expires_at
              then Inr (js_null, clearSession (Window st))
              else Inr (Some session, Window st))))))"

definition getStoredSession :: "platform \<Rightarrow> int \<Rightarrow> env \<Rightarrow> val \<times> env" where
  "getStoredSession P now e =
     (case e of
        NoWindow \<Rightarrow> (js_null, NoWindow)
      | Window st \<Rightarrow>
          (case getStoredSession_try P now st of
             Inr r \<Rightarrow> r
           | Inl err \<Rightarrow> (js_null, clearSession (Window st))))"

definition isFreshSession :: "env \<Rightarrow> bool" where
  "isFreshSession e =
     (case e of
        NoWindow \<Rightarrow> False
      | Window st \<Rightarrow>
          (case st ''kodex-session-active'' of
             None \<Rightarrow> True
           | Some isActive \<Rightarrow> isActive = []))"

definition markSessionActive :: "env \<Rightarrow> env" where
  "markSessionActive e =
     (case e of
        NoWindow \<Rightarrow> NoWindow
      | Window st \<Rightarrow> Window (st(''kodex-session-active'' \<mapsto> ''true'')))"

section \<open>Session initialisation and the Auth Facade (authService)\<close>

text \<open>
  A call of the identity service is its outcome: the promise is rejected (a network
  failure), or it resolves to the result envelope \<^verbatim>\<open>{ data, error }\<close>, whose
  \<^verbatim>\<open>error\<close> is \<^verbatim>\<open>null\<close> or an error object (here its message). The calls leave the
  four slots of the module alone. An asynchronous function of the module returns the
  settlement of its promise, \<open>Inl\<close> when it throws, and the environment it leaves.
\<close>

datatype 'a outcome = Rejects exn | Resolves 'a "string option"

text \<open>The \<^verbatim>\<open>try\<close> block of \<^verbatim>\<open>initializeSession\<close>. \<open>getSession\<close> is the outcome of
  \<^verbatim>\<open>supabase.auth.getSession()\<close> with \<^verbatim>\<open>data.session\<close> for its data;
  \<open>refreshSession\<close> answers \<^verbatim>\<open>supabase.auth.refreshSession(request)\<close>. The inner
  \<^verbatim>\<open>try\<close> returns the stored session when the refresh is rejected.\<close>

definition initializeSession_try ::
  "platform \<Rightarrow> readings \<Rightarrow> val outcome \<Rightarrow> (json \<Rightarrow> val outcome) \<Rightarrow> env \<Rightarrow> (exn + val) \<times> env" where
  "initializeSession_try P R getSession refreshSession e =
     (case getSession of
        Rejects x \<Rightarrow> (Inl x, e)
      | Resolves session error \<Rightarrow>
          (case error of
             Some msg \<Rightarrow>
               (case getStoredSession P (load_time R) e of
                  (storedSession, e1) \<Rightarrow>
                    if truthy storedSession then (Inr storedSession, e1)
                    else (Inr js_null, e1))
           | None \<Rightarrow>
               if truthy session
               then (Inr session, saveSession P (save_time R) (stamp_time R) session e)
               else
                 (case getStoredSession P (load_time R) e of
                    (storedSession, e1) \<Rightarrow>
                      if \<not> truthy storedSession then (Inr js_null, e1)
                      else
                        (case get_prop storedSession ''refresh_token'' of
                           Inl x \<Rightarrow> (Inl x, e1)
                         | Inr refresh_token \<Rightarrow>
                             if \<not> truthy refresh_token then (Inr js_null, e1)
                             else
                               (case refreshSession
                                       (JObj (object_literal [(''refresh_token'', refresh_token)])) of
                                  Rejects x \<Rightarrow> (Inr storedSession, e1)
                                | Resolves refreshedSession refreshError \<Rightarrow>
                                    (case refreshError of
                                       Some msg \<Rightarrow> (Inr js_null, clearSession e1)
                                     | None \<Rightarrow>
                                         if truthy refreshedSession
                                         then (Inr refreshedSession,
                                               saveSession P (save_time R) (stamp_time R)
                                                 refreshedSession e1)
                                         else (Inr js_null, e1)))))))"

definition initializeSession ::
  "platform \<Rightarrow> readings \<Rightarrow> val outcome \<Rightarrow> (json \<Rightarrow> val outcome) \<Rightarrow> env \<Rightarrow> (exn + val) \<times> env" where
  "initializeSession P R getSession refreshSession e =
     (case initializeSession_try P R getSession refreshSession e of
        (Inr v, e1) \<Rightarrow> (Inr v, e1)
      | (Inl err, e1) \<Rightarrow>
          (case getStoredSession P (load_time R) e1 of
             (storedSession, e2) \<Rightarrow>
               if truthy storedSession then (Inr storedSession, e2)
               else (Inr js_null, clearSession e2)))"

text \<open>\<^verbatim>\<open>email.split('@')[0]\<close>: the text before the first \<^verbatim>\<open>@\<close>, all of it when there
  is none.\<close>

definition split0 :: "string \<Rightarrow> string" where
  "split0 email = takeWhile (\<lambda>c. c \<noteq> CHR ''@'') email"

text \<open>\<^verbatim>\<open>fullName || email.split('@')[0]\<close>, for the optional string \<open>fullName\<close>.\<close>

definition display_name :: "string \<Rightarrow> string option \<Rightarrow> string" where
  "display_name email fullName =
     (case fullName of
        None \<Rightarrow> split0 email
      | Some n \<Rightarrow> if n \<noteq> [] then n else split0 email)"

text \<open>The metadata \<^verbatim>\<open>options.data\<close> of the sign-up call, and the whole argument. The
  literal is evaluated inside the \<^verbatim>\<open>try\<close> block, and \<^verbatim>\<open>encodeURIComponent\<close> may
  throw while it is.\<close>

definition signUp_metadata ::
  "platform \<Rightarrow> readings \<Rightarrow> string \<Rightarrow> string option \<Rightarrow> exn + (string \<times> json) list" where
  "signUp_metadata P R email fullName =
     then_do (encodeURIComponent P (display_name email fullName)) (\<lambda>encoded.
       Inr [(''full_name'', JStr (display_name email fullName)),
            (''avatar_url'',
               JStr (''https://ui-avatars.com/api/?name='' @ encoded
                     @ ''&size=200&background=random'')),
            (''bio'', JStr []),
            (''location'', JStr []),
            (''website'', JStr []),
            (''company'', JStr []),
            (''twitter_username'', JStr []),
            (''github_username'', JStr []),
            (''email_notifications'', JBool True),
            (''marketing_emails'', JBool False),
            (''security_alerts'', JBool True),
            (''two_factor_enabled'', JBool False),
            (''theme'', JStr ''system''),
            (''language'', JStr ''en''),
            (''timezone'', JStr (time_zone R)),
            (''date_format'', JStr ''MM/DD/YYYY''),
            (''created_at'', JStr (iso_time R))])"

definition signUp_request ::
  "platform \<Rightarrow> readings \<Rightarrow> string \<Rightarrow> string \<Rightarrow> string option \<Rightarrow> exn + json" where
  "signUp_request P R email password fullName =
     then_do (signUp_metadata P R email fullName) (\<lambda>metadata.
       Inr (JObj [(''email'', JStr email),
                  (''password'', JStr password),
                  (''options'', JObj [(''data'', JObj metadata)])]))"

text \<open>The data of a sign-up: \<^verbatim>\<open>data.user\<close> and \<^verbatim>\<open>data.session\<close>.\<close>

record auth_data =
  data_user :: val
  data_session :: val

text \<open>\<^verbatim>\<open>signUp\<close>; its \<^verbatim>\<open>catch\<close> logs and throws the same error.\<close>

definition signUp ::
  "platform \<Rightarrow> readings \<Rightarrow> (json \<Rightarrow> auth_data outcome) \<Rightarrow> string \<Rightarrow> string \<Rightarrow> string option
     \<Rightarrow> env \<Rightarrow> (exn + auth_data) \<times> env" where
  "signUp P R signUpCall email password fullName e =
     (case signUp_request P R email password fullName of
        Inl x \<Rightarrow> (Inl x, e)
      | Inr request \<Rightarrow>
          (case signUpCall request of
             Rejects x \<Rightarrow> (Inl x, e)
           | Resolves data error \<Rightarrow>
               (case error of
                  Some msg \<Rightarrow> (Inl (AuthError msg), e)
                | None \<Rightarrow>
                    if truthy (data_session data)
                    then (Inr data,
                          saveSession P (save_time R) (stamp_time R) (data_session data) e)
                    else (Inr data, e))))"

text \<open>\<^verbatim>\<open>signOut\<close>: its \<^verbatim>\<open>try\<close> block, then the function with its \<^verbatim>\<open>catch\<close>.\<close>

definition signOut_try :: "unit outcome \<Rightarrow> env \<Rightarrow> (exn + unit) \<times> env" where
  "signOut_try signOutCall e =
     (case signOutCall of
        Rejects x \<Rightarrow> (Inl x, e)
      | Resolves u error \<Rightarrow> (Inr (), clearSession e))"

definition signOut :: "unit outcome \<Rightarrow> env \<Rightarrow> (exn + unit) \<times> env" where
  "signOut signOutCall e =
     (case signOut_try signOutCall e of
        (Inr u, e1) \<Rightarrow> (Inr (), e1)
      | (Inl err, e1) \<Rightarrow> (Inr (), clearSession e1))"

text \<open>The optional read \<^verbatim>\<open>v?.k\<close> and \<^verbatim>\<open>v || null\<close>.\<close>

fun optional_prop :: "val \<Rightarrow> string \<Rightarrow> val" where
  "optional_prop None k = None"
| "optional_prop (Some JNull) k = None"
| "optional_prop (Some (JObj kvs)) k = map_of kvs k"
| "optional_prop (Some v) k = None"

definition or_null :: "val \<Rightarrow> val" where
  "or_null v = (if truthy v then v else js_null)"

text \<open>\<^verbatim>\<open>getCurrentUser\<close>: \<open>getUser\<close> is the outcome of \<^verbatim>\<open>supabase.auth.getUser()\<close> with
  \<^verbatim>\<open>data.user\<close> for its data.\<close>

definition getCurrentUser_try ::
  "platform \<Rightarrow> readings \<Rightarrow> val outcome \<Rightarrow> env \<Rightarrow> (exn + val) \<times> env" where
  "getCurrentUser_try P R getUser e =
     (case getUser of
        Rejects x \<Rightarrow> (Inl x, e)
      | Resolves user error \<Rightarrow>
          (case error of
             Some msg \<Rightarrow>
               (case getStoredSession P (load_time R) e of
                  (storedSession, e1) \<Rightarrow>
                    (Inr (or_null (optional_prop storedSession ''user'')), e1))
           | None \<Rightarrow> (Inr user, e)))"

definition getCurrentUser ::
  "platform \<Rightarrow> readings \<Rightarrow> val outcome \<Rightarrow> env \<Rightarrow> (exn + val) \<times> env" where
  "getCurrentUser P R getUser e =
     (case getCurrentUser_try P R getUser e of
        (Inr v, e1) \<Rightarrow> (Inr v, e1)
      | (Inl err, e1) \<Rightarrow>
          (case getStoredSession P (load_time R) e1 of
             (storedSession, e2) \<Rightarrow>
               (Inr (or_null (optional_prop storedSession ''user'')), e2)))"

text \<open>
  The updates. \<open>updateUser\<close> answers \<^verbatim>\<open>supabase.auth.updateUser(request)\<close> with
  \<^verbatim>\<open>data.user\<close> for its data, which stands for the \<^verbatim>\<open>data\<close> the functions return.
  Each \<^verbatim>\<open>catch\<close> logs and throws the same error.

  The block of \<^verbatim>\<open>updateProfile\<close> under \<^verbatim>\<open>if (updates.password)\<close>:
\<close>

definition updateProfile_password ::
  "platform \<Rightarrow> readings \<Rightarrow> (json \<Rightarrow> val outcome) \<Rightarrow> val \<Rightarrow> env \<Rightarrow> (exn + val) \<times> env" where
  "updateProfile_password P R updateUser password e =
     (case updateUser (JObj (object_literal [(''password'', password)])) of
        Rejects x \<Rightarrow> (Inl x, e)
      | Resolves user error \<Rightarrow>
          (case error of
             Some msg \<Rightarrow> (Inl (AuthError msg), e)
           | None \<Rightarrow>
               if truthy user then
                 (case getStoredSession P (load_time R) e of
                    (storedSession, e1) \<Rightarrow>
                      if truthy storedSession then
                        (case set_prop storedSession ''user'' user of
                           Inl x \<Rightarrow> (Inl x, e1)
                         | Inr updated \<Rightarrow>
                             (Inr user,
                              saveSession P (save_time R) (stamp_time R) (Some updated) e1))
                      else (Inr user, e1))
               else (Inr user, e)))"

text \<open>The argument of the metadata update:
  \<^verbatim>\<open>{ data: { ...(updates.data || updates), updated_at: new Date().toISOString() } }\<close>.\<close>

definition metadata_request :: "readings \<Rightarrow> json \<Rightarrow> exn + json" where
  "metadata_request R updates =
     then_do (get_prop (Some updates) ''data'') (\<lambda>data.
       let updateData = (if truthy data then data else Some updates)
       in Inr (JObj [(''data'',
                 JObj (set_field (spread updateData) ''updated_at'' (JStr (iso_time R))))]))"

text \<open>The rest of \<^verbatim>\<open>updateProfile\<close>, after the password block: the metadata update.\<close>

definition updateProfile_metadata ::
  "platform \<Rightarrow> readings \<Rightarrow> (json \<Rightarrow> val outcome) \<Rightarrow> json \<Rightarrow> env \<Rightarrow> (exn + val) \<times> env" where
  "updateProfile_metadata P R updateUser updates e =
     (case metadata_request R updates of
        Inl x \<Rightarrow> (Inl x, e)
      | Inr request \<Rightarrow>
          (case updateUser request of
             Rejects x \<Rightarrow> (Inl x, e)
           | Resolves user error \<Rightarrow>
               (case error of
                  Some msg \<Rightarrow> (Inl (AuthError msg), e)
                | None \<Rightarrow>
                    if truthy user then
                      (case getStoredSession P (load_time R) e of
                         (storedSession, e1) \<Rightarrow>
                           if truthy storedSession then
                             (case set_prop storedSession ''user'' user of
                                Inl x \<Rightarrow> (Inl x, e1)
                              | Inr updated \<Rightarrow>
                                  (Inr user,
                                   saveSession P (save_time R) (stamp_time R)
                                     (Some updated) e1))
                           else (Inr user, e1))
                    else (Inr user, e))))"

definition updateProfile ::
  "platform \<Rightarrow> readings \<Rightarrow> (json \<Rightarrow> val outcome) \<Rightarrow> json \<Rightarrow> env \<Rightarrow> (exn + val) \<times> env" where
  "updateProfile P R updateUser updates e =
     (case get_prop (Some updates) ''password'' of
        Inl x \<Rightarrow> (Inl x, e)
      | Inr password \<Rightarrow>
          if truthy password then updateProfile_password P R updateUser password e
          else updateProfile_metadata P R updateUser updates e)"

definition updatePassword ::
  "platform \<Rightarrow> readings \<Rightarrow> (json \<Rightarrow> val outcome) \<Rightarrow> string \<Rightarrow> env \<Rightarrow> (exn + val) \<times> env" where
  "updatePassword P R updateUser newPassword e =
     (case updateUser (JObj (object_literal [(''password'', Some (JStr newPassword))])) of
        Rejects x \<Rightarrow> (Inl x, e)
      | Resolves user error \<Rightarrow>
          (case error of
             Some msg \<Rightarrow> (Inl (AuthError msg), e)
           | None \<Rightarrow>
               if truthy user then
                 (case getStoredSession P (load_time R) e of
                    (storedSession, e1) \<Rightarrow>
                      if truthy storedSession then
                        (case set_prop storedSession ''user'' user of
                           Inl x \<Rightarrow> (Inl x, e1)
                         | Inr updated \<Rightarrow>
                             (Inr user,
                              saveSession P (save_time R) (stamp_time R) (Some updated) e1))
                      else (Inr user, e1))
               else (Inr user, e)))"

section \<open>Notions the properties are stated with\<close>

text \<open>A record has a field when the read gives a truthy value (the test the module makes
  of \<^verbatim>\<open>user\<close> and \<^verbatim>\<open>access_token\<close>); a slot is empty when it is absent or holds the
  empty string (the test \<^verbatim>\<open>!stored\<close>).\<close>

definition has_prop :: "json \<Rightarrow> string \<Rightarrow> bool" where
  "has_prop v k = (case get_prop (Some v) k of Inr x \<Rightarrow> truthy x | Inl err \<Rightarrow> False)"

definition slot_empty :: "storage \<Rightarrow> string \<Rightarrow> bool" where
  "slot_empty st k = (st k = None \<or> st k = Some [])"

text \<open>The field of a value that is not \<^verbatim>\<open>undefined\<close> or \<^verbatim>\<open>null\<close>, and the record
  that \<^verbatim>\<open>saveSession\<close> writes for such a session.\<close>

definition field :: "val \<Rightarrow> string \<Rightarrow> val" where
  "field v k = (case get_prop v k of Inr x \<Rightarrow> x | Inl err \<Rightarrow> None)"

definition savedData :: "val \<Rightarrow> int \<Rightarrow> json" where
  "savedData session t1 =
     JObj (object_literal
       [(''user'', field session ''user''),
        (''access_token'', field session ''access_token''),
        (''refresh_token'', field session ''refresh_token''),
        (''expires_at'', field session ''expires_at''),
        (''expires_in'', field session ''expires_in''),
        (''token_type'', field session ''token_type''),
        (''saved_at'', Some (JNum (of_int t1)))])"

text \<open>
  A storage lifetime: it starts with no active flag; the module's functions act on it in
  any order, with any arguments; anybody may write the other slots.
\<close>

inductive lifetime :: "platform \<Rightarrow> env \<Rightarrow> bool" for P :: platform where
  fresh: "st ''kodex-session-active'' = None \<Longrightarrow> lifetime P (Window st)"
| save: "lifetime P e \<Longrightarrow> lifetime P (saveSession P t1 t2 session e)"
| load: "lifetime P e \<Longrightarrow> lifetime P (snd (getStoredSession P now e))"
| clear: "lifetime P e \<Longrightarrow> lifetime P (clearSession e)"
| mark: "lifetime P e \<Longrightarrow> lifetime P (markSessionActive e)"
| foreign: "lifetime P (Window st) \<Longrightarrow> k \<noteq> ''kodex-session-active'' \<Longrightarrow>
            lifetime P (Window (st(k := v)))"

text \<open>What holds of the active flag throughout a lifetime: the slot is absent or holds
  \<^verbatim>\<open>'true'\<close>.\<close>

definition flag_inv :: "env \<Rightarrow> bool" where
  "flag_inv e = (\<exists>st. e = Window st \<and>
      (st ''kodex-session-active'' = None \<or> st ''kodex-session-active'' = Some ''true''))"

text \<open>A session, the record saved for it at time 5, a text for that record, and a platform
  that prints the record as this text and reads it back; they instantiate the theorems.\<close>

definition demo_session :: json where
  "demo_session =
     JObj [(''user'', JObj [(''id'', JStr ''u1'')]),
           (''access_token'', JStr ''at-1''),
           (''refresh_token'', JStr ''rt-1''),
           (''expires_at'', JNum 2000)]"

definition demo_record :: json where
  "demo_record =
     JObj [(''user'', JObj [(''id'', JStr ''u1'')]),
           (''access_token'', JStr ''at-1''),
           (''refresh_token'', JStr ''rt-1''),
           (''expires_at'', JNum 2000),
           (''saved_at'', JNum 5)]"

definition demo_text :: string where
  "demo_text = ''{user:{id:u1},access_token:at-1,refresh_token:rt-1,expires_at:2000,saved_at:5}''"

text \<open>An older record of the same user, with its text.\<close>

definition demo_old_record :: json where
  "demo_old_record =
     JObj [(''user'', JObj [(''id'', JStr ''u1'')]),
           (''access_token'', JStr ''at-0''),
           (''refresh_token'', JStr ''rt-0''),
           (''expires_at'', JNum 2000),
           (''saved_at'', JNum 1)]"

definition demo_old_text :: string where
  "demo_old_text = ''{user:{id:u1},access_token:at-0,refresh_token:rt-0,expires_at:2000,saved_at:1}''"

text \<open>A surrogate code point in the bytes of a string: the byte 237 followed by a byte from
  160 to 191. It stands there only when the surrogate is a lone one.\<close>

fun has_surrogate :: "string \<Rightarrow> bool" where
  "has_surrogate (a # b # cs) =
     ((of_char a = (237 :: nat) \<and> (160 :: nat) \<le> of_char b \<and> of_char b \<le> (191 :: nat))
      \<or> has_surrogate (b # cs))"
| "has_surrogate cs = False"

text \<open>The platform of the examples: it reads the two texts and \<^verbatim>\<open>null\<close>, prints the two
  records, throws a URIError on a surrogate and encodes the plain names of the examples
  as themselves, and rounds nothing (the quotients of the examples, 1000 and 3000, are
  doubles).\<close>

definition demo_platform :: platform where
  "demo_platform =
     \<lparr> JSON_parse = (\<lambda>s. if s = demo_text then Inr demo_record
                          else if s = demo_old_text then Inr demo_old_record
                          else if s = ''null'' then Inr JNull
                          else Inl SyntaxError),
       JSON_stringify = (\<lambda>j. if j = demo_record then demo_text
                              else if j = demo_old_record then demo_old_text
                              else ''null''),
       encodeURIComponent = (\<lambda>s. if has_surrogate s then Inl URIError else Inr s),
       js_double = (\<lambda>x. x),
       js_gt = (\<lambda>x v. False) \<rparr>"

text \<open>A storage with the four slots of the module, the session slot holding a given text,
  and a slot of another owner.\<close>

definition demo_storage :: "string \<Rightarrow> storage" where
  "demo_storage stored =
     [''kodex-session'' \<mapsto> stored,
      ''kodex-auth'' \<mapsto> ''sdk-session'',
      ''kodex-auth-timestamp'' \<mapsto> ''1'',
      ''kodex-session-active'' \<mapsto> ''true'',
      ''theme'' \<mapsto> ''dark'']"

text \<open>Three identity services for the refresh: one that answers the request with the
  token \<^verbatim>\<open>rt-0\<close>, and no other, with the session of the examples; one that resolves
  with an error; one that cannot be reached.\<close>

definition demo_refresh :: "json \<Rightarrow> val outcome" where
  "demo_refresh request =
     (if request = JObj [(''refresh_token'', JStr ''rt-0'')]
      then Resolves (Some demo_session) None
      else Rejects (NetworkError ''unexpected request''))"

definition demo_refresh_revoked :: "json \<Rightarrow> val outcome" where
  "demo_refresh_revoked request = Resolves js_null (Some ''refresh token revoked'')"

definition demo_refresh_offline :: "json \<Rightarrow> val outcome" where
  "demo_refresh_offline request = Rejects (NetworkError ''offline'')"

text \<open>A user, and an identity service that answers every update with this user.\<close>

definition demo_user :: json where
  "demo_user = JObj [(''id'', JStr ''u1''), (''email'', JStr ''ada@example.com'')]"

definition demo_updateUser :: "json \<Rightarrow> val outcome" where
  "demo_updateUser request = Resolves (Some demo_user) None"

text \<open>The request of a sign-up of \<^verbatim>\<open>ada@example.com\<close> under a given name, in the time
  zone and at the time of the examples; an identity service that answers this request,
  and no other, with a user and no session; one that answers every request with an
  error; one that answers every request with a user; and an email whose part before the \<^verbatim>\<open>@\<close> is the lone surrogate U+D800.\<close>

definition demo_signUp_request :: "string \<Rightarrow> json" where
  "demo_signUp_request name =
     JObj [(''email'', JStr ''ada@example.com''),
           (''password'', JStr ''pw''),
           (''options'', JObj [(''data'', JObj
              [(''full_name'', JStr name),
               (''avatar_url'',
                  JStr (''https://ui-avatars.com/api/?name='' @ name
                        @ ''&size=200&background=random'')),
               (''bio'', JStr []),
               (''location'', JStr []),
               (''website'', JStr []),
               (''company'', JStr []),
               (''twitter_username'', JStr []),
               (''github_username'', JStr []),
               (''email_notifications'', JBool True),
               (''marketing_emails'', JBool False),
               (''security_alerts'', JBool True),
               (''two_factor_enabled'', JBool False),
               (''theme'', JStr ''system''),
               (''language'', JStr ''en''),
               (''timezone'', JStr ''UTC''),
               (''date_format'', JStr ''MM/DD/YYYY''),
               (''created_at'', JStr ''1970-01-01T00:00:00.005Z'')])])]"

definition demo_signUp :: "string \<Rightarrow> json \<Rightarrow> auth_data outcome" where
  "demo_signUp name request =
     (if request = demo_signUp_request name
      then Resolves \<lparr>data_user = Some demo_user, data_session = js_null\<rparr> None
      else Rejects (NetworkError ''unexpected request''))"

definition demo_signUp_taken :: "json \<Rightarrow> auth_data outcome" where
  "demo_signUp_taken request =
     Resolves \<lparr>data_user = js_null, data_session = js_null\<rparr> (Some ''User already registered'')"

definition demo_signUp_always :: "json \<Rightarrow> auth_data outcome" where
  "demo_signUp_always request =
     Resolves \<lparr>data_user = Some demo_user, data_session = js_null\<rparr> None"

definition demo_surrogate_email :: string where
  "demo_surrogate_email = [CHR 0xED, CHR 0xA0, CHR 0x80] @ ''@example.com''"

definition demo_readings :: readings where
  "demo_readings =
     \<lparr> load_time = 1000000, save_time = 5, stamp_time = 6,
       iso_time = ''1970-01-01T00:00:00.005Z'', time_zone = ''UTC'' \<rparr>"

section \<open>Session Cache: lemmas\<close>


lemma load_empty:
  "slot_empty st ''kodex-session'' \<Longrightarrow>
   getStoredSession P now (Window st) = (js_null, Window st)"
  by (auto simp: slot_empty_def getStoredSession_def getStoredSession_try_def)

lemma load_unparsable:
  "st ''kodex-session'' = Some s \<Longrightarrow> s \<noteq> [] \<Longrightarrow> JSON_parse P s = Inl x \<Longrightarrow>
   getStoredSession P now (Window st) = (js_null, clearSession (Window st))"
  by (simp add: getStoredSession_def getStoredSession_try_def)

lemma load_parsed:
  "st ''kodex-session'' = Some s \<Longrightarrow> s \<noteq> [] \<Longrightarrow> JSON_parse P s = Inr r \<Longrightarrow>
   getStoredSession P now (Window st) =
     (if has_prop r ''user'' \<and> has_prop r ''access_token'' \<and>
         \<not> is_expired P now (field (Some r) ''expires_at'')
      then (Some r, Window st) else (js_null, clearSession (Window st)))"
  by (cases r)
     (auto simp: getStoredSession_def getStoredSession_try_def has_prop_def field_def
           split: sum.splits)

lemma has_prop_truthy: "has_prop r k \<Longrightarrow> truthy (Some r)"
  by (cases r) (simp_all add: has_prop_def)

lemma load_cases:
  "slot_empty st ''kodex-session'' \<and> getStoredSession P now (Window st) = (js_null, Window st)
   \<or> \<not> slot_empty st ''kodex-session'' \<and>
       getStoredSession P now (Window st) = (js_null, clearSession (Window st))
   \<or> (\<exists>s r. st ''kodex-session'' = Some s \<and> s \<noteq> [] \<and> JSON_parse P s = Inr r \<and>
        has_prop r ''user'' \<and> has_prop r ''access_token'' \<and>
        \<not> is_expired P now (field (Some r) ''expires_at'') \<and>
        getStoredSession P now (Window st) = (Some r, Window st))"
proof (cases "slot_empty st ''kodex-session''")
  case True
  then show ?thesis by (simp add: load_empty)
next
  case False
  then obtain s where s: "st ''kodex-session'' = Some s" "s \<noteq> []"
    by (auto simp: slot_empty_def)
  show ?thesis
  proof (cases "JSON_parse P s")
    case (Inl x)
    with s False show ?thesis by (simp add: load_unparsable)
  next
    case (Inr r)
    with s False show ?thesis by (simp add: load_parsed)
  qed
qed

lemma sessionData_truthy:
  "truthy session \<Longrightarrow> sessionData session t1 = Inr (savedData session t1)"
  by (cases session rule: truthy.cases) (simp_all add: sessionData_def savedData_def field_def)

lemma save_truthy:
  "truthy session \<Longrightarrow> saveSession P t1 t2 session (Window st) =
     Window (st(''kodex-session'' \<mapsto> JSON_stringify P (savedData session t1),
                ''kodex-auth-timestamp'' \<mapsto> toString t2,
                ''kodex-session-active'' \<mapsto> ''true''))"
  by (simp add: saveSession_def saveSession_try_def sessionData_truthy)

lemma save_falsy: "\<not> truthy session \<Longrightarrow> saveSession P t1 t2 session e = e"
  by (cases e) (simp_all add: saveSession_def)

lemma lifetime_flag: "lifetime P e \<Longrightarrow> flag_inv e"
proof (induction rule: lifetime.induct)
  case (fresh st)
  then show ?case by (simp add: flag_inv_def)
next
  case (save e t1 t2 session)
  then obtain st where e: "e = Window st" by (auto simp: flag_inv_def)
  show ?case
  proof (cases "truthy session")
    case True
    from save_truthy[OF True, of P t1 t2 st] e show ?thesis by (simp add: flag_inv_def)
  next
    case False
    with save show ?thesis by (simp add: save_falsy)
  qed
next
  case (load e now)
  then obtain st where e: "e = Window st" by (auto simp: flag_inv_def)
  from load_cases[of st P now] load e show ?case
    by (auto simp: flag_inv_def clearSession_def)
next
  case (clear e)
  then show ?case by (auto simp: flag_inv_def clearSession_def)
next
  case (mark e)
  then show ?case by (auto simp: flag_inv_def markSessionActive_def)
next
  case (foreign st k v)
  then show ?case by (auto simp: flag_inv_def)
qed

text \<open>
  C7. In a storage lifetime \<^verbatim>\<open>isFreshSession\<close> is true exactly when the active flag is
  absent from the storage. It is true of every storage without the flag, so before any
  \<^verbatim>\<open>saveSession\<close> or \<^verbatim>\<open>markSessionActive\<close>; it is false right after
  \<^verbatim>\<open>markSessionActive\<close> and right after \<^verbatim>\<open>saveSession\<close> of a session (a truthy value),
  whatever the storage was. Throughout a lifetime the flag slot is absent or holds
  \<^verbatim>\<open>'true'\<close>; the function tests \<^verbatim>\<open>!isActive\<close>, so a slot holding the empty
  string, which nothing in the module writes, would read as fresh too.
\<close>

theorem isFreshSession_iff_flag_absent:
  "(lifetime P (Window st) \<longrightarrow>
      isFreshSession (Window st) = (st ''kodex-session-active'' = None)) \<and>
   (st ''kodex-session-active'' = None \<longrightarrow> isFreshSession (Window st)) \<and>
   \<not> isFreshSession (markSessionActive (Window st)) \<and>
   (truthy session \<longrightarrow> \<not> isFreshSession (saveSession P t1 t2 session (Window st)))"
proof (intro conjI impI)
  assume "lifetime P (Window st)"
  from lifetime_flag[OF this]
  show "isFreshSession (Window st) = (st ''kodex-session-active'' = None)"
    by (auto simp: flag_inv_def isFreshSession_def)
next
  assume "st ''kodex-session-active'' = None"
  then show "isFreshSession (Window st)" by (simp add: isFreshSession_def)
next
  show "\<not> isFreshSession (markSessionActive (Window st))"
    by (simp add: isFreshSession_def markSessionActive_def)
next
  assume "truthy session"
  from save_truthy[OF this, of P t1 t2 st]
  show "\<not> isFreshSession (saveSession P t1 t2 session (Window st))"
    by (simp add: isFreshSession_def)
qed

lemma demo_saved: "savedData (Some demo_session) 5 = demo_record"
  by (simp add: savedData_def demo_session_def demo_record_def field_def)

lemma map_of_object_literal_notin:
  "k \<notin> fst ` set fs \<Longrightarrow> map_of (object_literal fs) k = None"
  by (induction fs rule: object_literal.induct) auto

lemma map_of_object_literal:
  "distinct (map fst fs) \<Longrightarrow>
   map_of (object_literal fs) k = (case map_of fs k of None \<Rightarrow> None | Some v \<Rightarrow> v)"
  by (induction fs rule: object_literal.induct) (auto simp: map_of_object_literal_notin)

lemma savedData_field:
  "truthy session \<Longrightarrow>
   k \<in> {''user'', ''access_token'', ''refresh_token'', ''expires_at'', ''expires_in'', ''token_type''} \<Longrightarrow>
   get_prop (Some (savedData session t1)) k = Inr (field session k)"
  by (auto simp: savedData_def map_of_object_literal)

lemma savedData_saved_at:
  "get_prop (Some (savedData session t1)) ''saved_at'' = Inr (Some (JNum (of_int t1)))"
  by (simp add: savedData_def map_of_object_literal)


lemma demo_update [simp]:
  "demo_updateUser request = Resolves (Some demo_user) None"
  "truthy (Some demo_user)"
  by (simp_all add: demo_updateUser_def demo_user_def)

lemma demo_parse [simp]:
  "JSON_parse demo_platform demo_text = Inr demo_record"
  "JSON_parse demo_platform demo_old_text = Inr demo_old_record"
  "JSON_parse demo_platform ''null'' = Inr JNull"
  "JSON_parse demo_platform ''{user'' = Inl SyntaxError"
  "JSON_parse demo_platform [] = Inl SyntaxError"
  "demo_text \<noteq> []"
  "demo_old_text \<noteq> []"
  by (simp_all add: demo_platform_def demo_text_def demo_old_text_def)

lemma demo_double [simp]: "js_double demo_platform x = x"
  by (simp add: demo_platform_def)

lemma demo_storage_slots [simp]:
  "demo_storage stored ''kodex-session'' = Some stored"
  "demo_storage stored ''kodex-auth'' = Some ''sdk-session''"
  "demo_storage stored ''kodex-auth-timestamp'' = Some ''1''"
  "demo_storage stored ''kodex-session-active'' = Some ''true''"
  "demo_storage stored ''theme'' = Some ''dark''"
  by (simp_all add: demo_storage_def)

text \<open>
  The expiry test and the clock. When the rounding of the platform is monotone and some
  double \<open>m\<close> lies above \<open>n\<close> and not above the exact quotient (the next whole second,
  for a timestamp in whole seconds), a non-zero \<^verbatim>\<open>expires_at\<close> of \<open>n\<close> is expired. A
  timestamp closer to the exact quotient than the doubles are to each other may pass the
  test although it is below the exact quotient.
\<close>

lemma is_expired_past:
  assumes "mono (js_double P)" "js_double P m = m" "n < m" "m \<le> of_int now / 1000" "n \<noteq> 0"
  shows "is_expired P now (Some (JNum n))"
proof -
  from assms(1,4) have "js_double P m \<le> js_double P (of_int now / 1000)"
    by (rule monoD)
  with assms(2,3) have "n < js_double P (of_int now / 1000)" by simp
  with assms(5) show ?thesis by (simp add: is_expired_def)
qed

text \<open>
  C1 (as amended). \<^verbatim>\<open>getStoredSession\<close> has no exceptional result, and when it fails it
  returns \<^verbatim>\<open>null\<close>. When the session slot is absent or holds the empty string, it
  returns \<^verbatim>\<open>null\<close> and leaves the storage as it is: nothing is cleared. When the slot
  holds a non-empty text that does not parse, or that parses to a record without a truthy
  \<^verbatim>\<open>user\<close> or \<^verbatim>\<open>access_token\<close>, or to a record whose \<^verbatim>\<open>expires_at\<close> is a
  non-zero number below the quotient \<^verbatim>\<open>Date.now() / 1000\<close> as the platform computes it
  (in doubles), it returns \<^verbatim>\<open>null\<close> and the storage is left without the session
  record, the auth key, the auth timestamp and the active flag, its other slots as they
  were. Every failing call is of one of the two kinds. Without a window it returns
  \<^verbatim>\<open>null\<close>.
\<close>

theorem getStoredSession_fails_closed:
  "(slot_empty st ''kodex-session'' \<longrightarrow>
      getStoredSession P now (Window st) = (js_null, Window st)) \<and>
   (\<forall>s x. st ''kodex-session'' = Some s \<and> s \<noteq> [] \<and> JSON_parse P s = Inl x \<longrightarrow>
      getStoredSession P now (Window st) =
        (js_null, Window (st(''kodex-session'' := None, ''kodex-auth'' := None,
                             ''kodex-auth-timestamp'' := None,
                             ''kodex-session-active'' := None)))) \<and>
   (\<forall>s r. st ''kodex-session'' = Some s \<and> s \<noteq> [] \<and> JSON_parse P s = Inr r \<and>
          (\<not> has_prop r ''user'' \<or> \<not> has_prop r ''access_token'') \<longrightarrow>
      getStoredSession P now (Window st) =
        (js_null, Window (st(''kodex-session'' := None, ''kodex-auth'' := None,
                             ''kodex-auth-timestamp'' := None,
                             ''kodex-session-active'' := None)))) \<and>
   (\<forall>s r n. st ''kodex-session'' = Some s \<and> s \<noteq> [] \<and> JSON_parse P s = Inr r \<and>
          get_prop (Some r) ''expires_at'' = Inr (Some (JNum n)) \<and> n \<noteq> 0 \<and>
          js_double P (of_int now / 1000) > n \<longrightarrow>
      getStoredSession P now (Window st) =
        (js_null, Window (st(''kodex-session'' := None, ''kodex-auth'' := None,
                             ''kodex-auth-timestamp'' := None,
                             ''kodex-session-active'' := None)))) \<and>
   (fst (getStoredSession P now (Window st)) = js_null \<longrightarrow>
      snd (getStoredSession P now (Window st)) =
        (if slot_empty st ''kodex-session'' then Window st
         else Window (st(''kodex-session'' := None, ''kodex-auth'' := None,
                         ''kodex-auth-timestamp'' := None,
                         ''kodex-session-active'' := None)))) \<and>
   getStoredSession P now NoWindow = (js_null, NoWindow)"
proof (intro conjI allI impI)
  assume "slot_empty st ''kodex-session''"
  then show "getStoredSession P now (Window st) = (js_null, Window st)"
    by (rule load_empty)
next
  fix s x
  assume "st ''kodex-session'' = Some s \<and> s \<noteq> [] \<and> JSON_parse P s = Inl x"
  then show "getStoredSession P now (Window st) =
        (js_null, Window (st(''kodex-session'' := None, ''kodex-auth'' := None,
                             ''kodex-auth-timestamp'' := None,
                             ''kodex-session-active'' := None)))"
    by (simp add: load_unparsable clearSession_def)
next
  fix s r
  assume "st ''kodex-session'' = Some s \<and> s \<noteq> [] \<and> JSON_parse P s = Inr r \<and>
          (\<not> has_prop r ''user'' \<or> \<not> has_prop r ''access_token'')"
  then show "getStoredSession P now (Window st) =
        (js_null, Window (st(''kodex-session'' := None, ''kodex-auth'' := None,
                             ''kodex-auth-timestamp'' := None,
                             ''kodex-session-active'' := None)))"
    by (auto simp: load_parsed clearSession_def)
next
  fix s r n
  assume a: "st ''kodex-session'' = Some s \<and> s \<noteq> [] \<and> JSON_parse P s = Inr r \<and>
          get_prop (Some r) ''expires_at'' = Inr (Some (JNum n)) \<and> n \<noteq> 0 \<and>
          js_double P (of_int now / 1000) > n"
  then have "is_expired P now (field (Some r) ''expires_at'')"
    by (simp add: is_expired_def field_def)
  with a show "getStoredSession P now (Window st) =
        (js_null, Window (st(''kodex-session'' := None, ''kodex-auth'' := None,
                             ''kodex-auth-timestamp'' := None,
                             ''kodex-session-active'' := None)))"
    by (simp add: load_parsed clearSession_def)
next
  assume f: "fst (getStoredSession P now (Window st)) = js_null"
  from load_cases[of st P now]
  show "snd (getStoredSession P now (Window st)) =
        (if slot_empty st ''kodex-session'' then Window st
         else Window (st(''kodex-session'' := None, ''kodex-auth'' := None,
                         ''kodex-auth-timestamp'' := None,
                         ''kodex-session-active'' := None)))"
  proof (elim disjE exE conjE)
    fix s r
    assume "has_prop r ''user''" "getStoredSession P now (Window st) = (Some r, Window st)"
    with f have "r = JNull" "has_prop r ''user''" by simp_all
    then show ?thesis by (simp add: has_prop_def)
  qed (simp_all add: clearSession_def)
next
  show "getStoredSession P now NoWindow = (js_null, NoWindow)"
    by (simp add: getStoredSession_def)
qed

text \<open>
  The theorem on a storage that holds the four slots of the module and a slot of another
  owner: with a text that does not parse, with the text \<^verbatim>\<open>null\<close> (a record without a
  user) and with a record that expired at 2000 s, read at 3000 s, the call returns
  \<^verbatim>\<open>null\<close>, the four slots are gone and the other slot is still there. On a storage
  with the active flag and no session record, the call returns \<^verbatim>\<open>null\<close> and the flag
  stays.
\<close>

theorem getStoredSession_fails_closed_witness:
  "slot_empty [''kodex-session-active'' \<mapsto> ''true''] ''kodex-session'' \<and>
   getStoredSession demo_platform 0 (Window [''kodex-session-active'' \<mapsto> ''true'']) =
     (js_null, Window [''kodex-session-active'' \<mapsto> ''true'']) \<and>
   JSON_parse demo_platform ''{user'' = Inl SyntaxError \<and>
   fst (getStoredSession demo_platform 0 (Window (demo_storage ''{user''))) = js_null \<and>
   getItem (snd (getStoredSession demo_platform 0 (Window (demo_storage ''{user''))))
     ''kodex-session'' = None \<and>
   getItem (snd (getStoredSession demo_platform 0 (Window (demo_storage ''{user''))))
     ''kodex-auth'' = None \<and>
   getItem (snd (getStoredSession demo_platform 0 (Window (demo_storage ''{user''))))
     ''kodex-auth-timestamp'' = None \<and>
   getItem (snd (getStoredSession demo_platform 0 (Window (demo_storage ''{user''))))
     ''kodex-session-active'' = None \<and>
   getItem (snd (getStoredSession demo_platform 0 (Window (demo_storage ''{user''))))
     ''theme'' = Some ''dark'' \<and>
   JSON_parse demo_platform ''null'' = Inr JNull \<and> \<not> has_prop JNull ''user'' \<and>
   fst (getStoredSession demo_platform 0 (Window (demo_storage ''null''))) = js_null \<and>
   getItem (snd (getStoredSession demo_platform 0 (Window (demo_storage ''null''))))
     ''kodex-session'' = None \<and>
   getItem (snd (getStoredSession demo_platform 0 (Window (demo_storage ''null''))))
     ''kodex-session-active'' = None \<and>
   JSON_parse demo_platform demo_text = Inr demo_record \<and>
   get_prop (Some demo_record) ''expires_at'' = Inr (Some (JNum 2000)) \<and>
   (2000 :: rat) < js_double demo_platform (of_int 3000000 / 1000) \<and>
   fst (getStoredSession demo_platform 3000000 (Window (demo_storage demo_text))) = js_null \<and>
   getItem (snd (getStoredSession demo_platform 3000000 (Window (demo_storage demo_text))))
     ''kodex-session'' = None \<and>
   getItem (snd (getStoredSession demo_platform 3000000 (Window (demo_storage demo_text))))
     ''kodex-auth'' = None \<and>
   getItem (snd (getStoredSession demo_platform 3000000 (Window (demo_storage demo_text))))
     ''kodex-auth-timestamp'' = None \<and>
   getItem (snd (getStoredSession demo_platform 3000000 (Window (demo_storage demo_text))))
     ''kodex-session-active'' = None \<and>
   getItem (snd (getStoredSession demo_platform 3000000 (Window (demo_storage demo_text))))
     ''theme'' = Some ''dark''"
proof -
  have e: "get_prop (Some demo_record) ''expires_at'' = Inr (Some (JNum 2000))"
    by (simp add: demo_record_def)
  have h: "\<not> has_prop JNull ''user''" by (simp add: has_prop_def)
  have s: "slot_empty [''kodex-session-active'' \<mapsto> ''true''] ''kodex-session''"
    by (simp add: slot_empty_def)
  note t0 = getStoredSession_fails_closed
              [of "[''kodex-session-active'' \<mapsto> ''true'']" demo_platform 0]
  note t1 = getStoredSession_fails_closed [of "demo_storage ''{user''" demo_platform 0]
  note t2 = getStoredSession_fails_closed [of "demo_storage ''null''" demo_platform 0]
  note t3 = getStoredSession_fails_closed [of "demo_storage demo_text" demo_platform 3000000]
  have a0: "getStoredSession demo_platform 0 (Window [''kodex-session-active'' \<mapsto> ''true'']) =
     (js_null, Window [''kodex-session-active'' \<mapsto> ''true''])"
    using t0 s by simp
  have a1: "getStoredSession demo_platform 0 (Window (demo_storage ''{user'')) =
     (js_null, Window ((demo_storage ''{user'')
        (''kodex-session'' := None, ''kodex-auth'' := None,
         ''kodex-auth-timestamp'' := None, ''kodex-session-active'' := None)))"
    using t1 by simp
  have a2: "getStoredSession demo_platform 0 (Window (demo_storage ''null'')) =
     (js_null, Window ((demo_storage ''null'')
        (''kodex-session'' := None, ''kodex-auth'' := None,
         ''kodex-auth-timestamp'' := None, ''kodex-session-active'' := None)))"
    using t2 h by simp
  have a3: "getStoredSession demo_platform 3000000 (Window (demo_storage demo_text)) =
     (js_null, Window ((demo_storage demo_text)
        (''kodex-session'' := None, ''kodex-auth'' := None,
         ''kodex-auth-timestamp'' := None, ''kodex-session-active'' := None)))"
    using t3 e by simp
  show ?thesis using s a0 e h by (simp add: a1 a2 a3 getItem_def)
qed

text \<open>
  The property as the specification states it, that every failing path clears the stored
  record, fails for the empty string: it is not JSON, the call returns \<^verbatim>\<open>null\<close>, and the slot and the
  active flag are still there afterwards.
\<close>

theorem getStoredSession_empty_string_kept:
  "JSON_parse demo_platform [] = Inl SyntaxError \<and>
   getStoredSession demo_platform 0
       (Window [''kodex-session'' \<mapsto> [], ''kodex-session-active'' \<mapsto> ''true'']) =
     (js_null, Window [''kodex-session'' \<mapsto> [], ''kodex-session-active'' \<mapsto> ''true'']) \<and>
   getItem (snd (getStoredSession demo_platform 0
       (Window [''kodex-session'' \<mapsto> [], ''kodex-session-active'' \<mapsto> ''true''])))
     ''kodex-session'' = Some []"
  by (simp add: getStoredSession_def getStoredSession_try_def getItem_def)

text \<open>The theorem at the empty storage, after a clear and a mark, and after a save.\<close>

theorem isFreshSession_iff_flag_absent_witness:
  "lifetime demo_platform (markSessionActive (clearSession (Window Map.empty))) \<and>
   \<not> isFreshSession (markSessionActive (clearSession (Window Map.empty))) \<and>
   lifetime demo_platform (Window Map.empty) \<and>
   isFreshSession (Window Map.empty) \<and>
   truthy (Some demo_session) \<and>
   \<not> isFreshSession (saveSession demo_platform 5 6 (Some demo_session) (Window Map.empty))"
proof -
  have l0: "lifetime demo_platform (Window Map.empty)"
    by (rule lifetime.fresh) simp
  have l1: "lifetime demo_platform (markSessionActive (clearSession (Window Map.empty)))"
    by (intro lifetime.mark lifetime.clear l0)
  obtain st where st: "markSessionActive (clearSession (Window Map.empty)) = Window st"
    "st ''kodex-session-active'' = Some ''true''"
    by (simp add: markSessionActive_def clearSession_def)
  have t: "truthy (Some demo_session)" by (simp add: demo_session_def)
  from isFreshSession_iff_flag_absent [of demo_platform st] l1 st
  have a: "\<not> isFreshSession (markSessionActive (clearSession (Window Map.empty)))" by simp
  from isFreshSession_iff_flag_absent [of demo_platform Map.empty] l0
  have b: "isFreshSession (Window Map.empty)" by simp
  from isFreshSession_iff_flag_absent [of demo_platform Map.empty "Some demo_session" 5 6] t
  have c: "\<not> isFreshSession (saveSession demo_platform 5 6 (Some demo_session) (Window Map.empty))"
    by simp
  show ?thesis using l0 l1 a b c t by simp
qed

text \<open>
  C10. Calling \<^verbatim>\<open>saveSession\<close> with \<^verbatim>\<open>undefined\<close> or with \<^verbatim>\<open>null\<close> leaves the
  environment, and so every storage slot, as it was. The function has no exceptional
  result: its \<^verbatim>\<open>try\<close> block is not entered.
\<close>

theorem saveSession_null_noop:
  "saveSession P t1 t2 js_undefined e = e \<and> saveSession P t1 t2 js_null e = e"
  by (cases e) (simp_all add: saveSession_def)

lemma has_prop_field: "has_prop r k \<Longrightarrow> get_prop (Some r) k' = Inr (field (Some r) k')"
  by (cases r) (simp_all add: has_prop_def field_def)

text \<open>
  C2. Take a session with a truthy \<^verbatim>\<open>user\<close> and \<^verbatim>\<open>access_token\<close> whose
  \<^verbatim>\<open>expires_at\<close> does not make the load's expiry test true at the time of the load
  (it is absent, or a number that is not below \<^verbatim>\<open>Date.now() / 1000\<close>), in a window,
  on a platform whose \<^verbatim>\<open>JSON.parse\<close> reads back the non-empty text that
  \<^verbatim>\<open>JSON.stringify\<close> prints for the saved record. Then \<^verbatim>\<open>saveSession\<close> followed by
  \<^verbatim>\<open>getStoredSession\<close> returns a record with the same \<^verbatim>\<open>user\<close>,
  \<^verbatim>\<open>access_token\<close>, \<^verbatim>\<open>refresh_token\<close>, \<^verbatim>\<open>expires_at\<close>, \<^verbatim>\<open>expires_in\<close> and
  \<^verbatim>\<open>token_type\<close> as the session, and with the time of the save as \<^verbatim>\<open>saved_at\<close>;
  the load leaves the storage as the save left it.
\<close>

theorem save_then_load_roundtrip:
  assumes user: "has_prop session ''user''"
    and token: "has_prop session ''access_token''"
    and fresh: "\<not> is_expired P now (field (Some session) ''expires_at'')"
    and parse: "JSON_parse P (JSON_stringify P (savedData (Some session) t1)) =
                  Inr (savedData (Some session) t1)"
    and nonempty: "JSON_stringify P (savedData (Some session) t1) \<noteq> []"
  shows "\<exists>r. getStoredSession P now (saveSession P t1 t2 (Some session) (Window st)) =
              (Some r, saveSession P t1 t2 (Some session) (Window st)) \<and>
            get_prop (Some r) ''user'' = get_prop (Some session) ''user'' \<and>
            get_prop (Some r) ''access_token'' = get_prop (Some session) ''access_token'' \<and>
            get_prop (Some r) ''refresh_token'' = get_prop (Some session) ''refresh_token'' \<and>
            get_prop (Some r) ''expires_at'' = get_prop (Some session) ''expires_at'' \<and>
            get_prop (Some r) ''expires_in'' = get_prop (Some session) ''expires_in'' \<and>
            get_prop (Some r) ''token_type'' = get_prop (Some session) ''token_type'' \<and>
            get_prop (Some r) ''saved_at'' = Inr (Some (JNum (of_int t1)))"
proof -
  let ?d = "savedData (Some session) t1"
  let ?st = "st(''kodex-session'' \<mapsto> JSON_stringify P ?d,
                ''kodex-auth-timestamp'' \<mapsto> toString t2,
                ''kodex-session-active'' \<mapsto> ''true'')"
  have tr: "truthy (Some session)" using user by (rule has_prop_truthy)
  have saved: "saveSession P t1 t2 (Some session) (Window st) = Window ?st"
    using tr by (rule save_truthy)
  have slot: "?st ''kodex-session'' = Some (JSON_stringify P ?d)" by simp
  have f: "\<And>k. k \<in> {''user'', ''access_token'', ''refresh_token'', ''expires_at'',
                       ''expires_in'', ''token_type''} \<Longrightarrow>
            get_prop (Some ?d) k = get_prop (Some session) k"
    using savedData_field[OF tr] has_prop_field[OF user] by simp
  have "has_prop ?d ''user''" "has_prop ?d ''access_token''"
       "field (Some ?d) ''expires_at'' = field (Some session) ''expires_at''"
    using f user token by (simp_all add: has_prop_def field_def)
  with load_parsed[of ?st "JSON_stringify P ?d" P ?d now, OF slot nonempty parse] fresh
  have "getStoredSession P now (Window ?st) = (Some ?d, Window ?st)" by simp
  with saved f savedData_saved_at[of "Some session" t1] show ?thesis by simp
qed

lemma demo_stringify [simp]: "JSON_stringify demo_platform demo_record = demo_text"
  by (simp add: demo_platform_def)

text \<open>The theorem at the session of the examples, saved at 5 and loaded at 1000 s, before
  its expiry at 2000 s.\<close>

theorem save_then_load_roundtrip_witness:
  "has_prop demo_session ''user'' \<and> has_prop demo_session ''access_token'' \<and>
   \<not> is_expired demo_platform 1000000 (field (Some demo_session) ''expires_at'') \<and>
   JSON_parse demo_platform (JSON_stringify demo_platform (savedData (Some demo_session) 5)) =
     Inr (savedData (Some demo_session) 5) \<and>
   JSON_stringify demo_platform (savedData (Some demo_session) 5) \<noteq> [] \<and>
   (\<exists>r. getStoredSession demo_platform 1000000
           (saveSession demo_platform 5 6 (Some demo_session) (Window Map.empty)) =
         (Some r, saveSession demo_platform 5 6 (Some demo_session) (Window Map.empty)) \<and>
        get_prop (Some r) ''user'' = Inr (Some (JObj [(''id'', JStr ''u1'')])) \<and>
        get_prop (Some r) ''access_token'' = Inr (Some (JStr ''at-1'')) \<and>
        get_prop (Some r) ''refresh_token'' = Inr (Some (JStr ''rt-1'')) \<and>
        get_prop (Some r) ''expires_at'' = Inr (Some (JNum 2000)) \<and>
        get_prop (Some r) ''expires_in'' = Inr js_undefined \<and>
        get_prop (Some r) ''token_type'' = Inr js_undefined \<and>
        get_prop (Some r) ''saved_at'' = Inr (Some (JNum 5)))"
proof -
  have u: "has_prop demo_session ''user''" and a: "has_prop demo_session ''access_token''"
    by (simp_all add: has_prop_def demo_session_def)
  have x: "\<not> is_expired demo_platform 1000000 (field (Some demo_session) ''expires_at'')"
    by (simp add: is_expired_def field_def demo_session_def)
  have p: "JSON_parse demo_platform (JSON_stringify demo_platform (savedData (Some demo_session) 5)) =
     Inr (savedData (Some demo_session) 5)"
    by (simp add: demo_saved)
  have t: "JSON_stringify demo_platform (savedData (Some demo_session) 5) \<noteq> []"
    by (simp add: demo_saved)
  from save_then_load_roundtrip [OF u a x p t, of 6 Map.empty]
  have "\<exists>r. getStoredSession demo_platform 1000000
           (saveSession demo_platform 5 6 (Some demo_session) (Window Map.empty)) =
         (Some r, saveSession demo_platform 5 6 (Some demo_session) (Window Map.empty)) \<and>
        get_prop (Some r) ''user'' = Inr (Some (JObj [(''id'', JStr ''u1'')])) \<and>
        get_prop (Some r) ''access_token'' = Inr (Some (JStr ''at-1'')) \<and>
        get_prop (Some r) ''refresh_token'' = Inr (Some (JStr ''rt-1'')) \<and>
        get_prop (Some r) ''expires_at'' = Inr (Some (JNum 2000)) \<and>
        get_prop (Some r) ''expires_in'' = Inr js_undefined \<and>
        get_prop (Some r) ''token_type'' = Inr js_undefined \<and>
        get_prop (Some r) ''saved_at'' = Inr (Some (JNum 5))"
    by (simp add: demo_session_def)
  with u a x p t show ?thesis by simp
qed

section \<open>Auth Facade: lemmas and theorems\<close>

lemma load_result:
  "fst (getStoredSession P now e) = js_null \<or>
   (\<exists>r. getStoredSession P now e = (Some r, e) \<and>
        has_prop r ''user'' \<and> has_prop r ''access_token'')"
proof (cases e)
  case NoWindow
  then show ?thesis by (simp add: getStoredSession_def)
next
  case (Window st)
  with load_cases[of st P now] show ?thesis by auto
qed

lemma load_some:
  "fst (getStoredSession P now e) = Some r \<Longrightarrow> r \<noteq> JNull \<Longrightarrow>
   getStoredSession P now e = (Some r, e) \<and> has_prop r ''user''"
  using load_result[of P now e] by auto

lemma has_prop_object: "has_prop r k \<Longrightarrow> \<exists>kvs. r = JObj kvs"
  by (cases r) (simp_all add: has_prop_def)

lemma cached_user:
  "has_prop r ''user'' \<Longrightarrow> or_null (optional_prop (Some r) ''user'') = field (Some r) ''user''"
  by (cases r) (simp_all add: has_prop_def or_null_def field_def)

text \<open>
  C4. \<^verbatim>\<open>signOut\<close> never throws, and whether the external call resolves without an error,
  resolves with an error or is rejected, it leaves the environment that
  \<^verbatim>\<open>clearSession\<close> leaves: none of the four session slots is in the storage afterwards.
\<close>

theorem signOut_always_clears:
  "signOut signOutCall e = (Inr (), clearSession e) \<and>
   getItem (snd (signOut signOutCall e)) ''kodex-session'' = None \<and>
   getItem (snd (signOut signOutCall e)) ''kodex-auth'' = None \<and>
   getItem (snd (signOut signOutCall e)) ''kodex-auth-timestamp'' = None \<and>
   getItem (snd (signOut signOutCall e)) ''kodex-session-active'' = None"
proof -
  have "signOut signOutCall e = (Inr (), clearSession e)"
    by (cases signOutCall) (simp_all add: signOut_def signOut_try_def)
  then show ?thesis by (cases e) (simp_all add: clearSession_def getItem_def)
qed

text \<open>
  C5. \<^verbatim>\<open>getCurrentUser\<close> never throws. When the external call resolves without an
  error it returns the user of the call and leaves the environment alone. When the call
  resolves with an error or is rejected it returns what \<^verbatim>\<open>getStoredSession\<close> gives:
  \<^verbatim>\<open>null\<close> when that returns \<^verbatim>\<open>null\<close> (cache empty or invalid), the \<^verbatim>\<open>user\<close> of the
  stored session otherwise.
\<close>

theorem getCurrentUser_falls_back:
  "(\<exists>v. fst (getCurrentUser P R getUser e) = Inr v) \<and>
   (getUser = Resolves user None \<longrightarrow> getCurrentUser P R getUser e = (Inr user, e)) \<and>
   (getUser = Rejects x \<or> getUser = Resolves user (Some msg) \<longrightarrow>
      getCurrentUser P R getUser e =
        (Inr (if fst (getStoredSession P (load_time R) e) = js_null then js_null
              else field (fst (getStoredSession P (load_time R) e)) ''user''),
         snd (getStoredSession P (load_time R) e)))"
proof -
  let ?L = "getStoredSession P (load_time R) e"
  have fb: "or_null (optional_prop (fst ?L) ''user'') =
            (if fst ?L = js_null then js_null else field (fst ?L) ''user'')"
  proof (cases "fst ?L = js_null")
    case True
    then show ?thesis by (simp add: or_null_def)
  next
    case False
    with load_result[of P "load_time R" e] obtain r where "fst ?L = Some r" "has_prop r ''user''"
      by auto
    with False show ?thesis by (simp add: cached_user)
  qed
  have rej: "getUser = Rejects x \<Longrightarrow> getCurrentUser P R getUser e =
        (Inr (or_null (optional_prop (fst ?L) ''user'')), snd ?L)"
    by (simp add: getCurrentUser_def getCurrentUser_try_def split: prod.splits)
  have err: "getUser = Resolves user (Some msg) \<Longrightarrow> getCurrentUser P R getUser e =
        (Inr (or_null (optional_prop (fst ?L) ''user'')), snd ?L)"
    by (simp add: getCurrentUser_def getCurrentUser_try_def split: prod.splits)
  have ok: "getUser = Resolves user None \<Longrightarrow> getCurrentUser P R getUser e = (Inr user, e)"
    by (simp add: getCurrentUser_def getCurrentUser_try_def)
  have nothrow: "\<exists>v. fst (getCurrentUser P R getUser e) = Inr v"
    by (cases getUser)
       (auto simp: getCurrentUser_def getCurrentUser_try_def split: prod.splits option.splits)
  from rej err ok nothrow fb show ?thesis by auto
qed


lemma demo_load:
  "getStoredSession demo_platform 1000000 (Window (st(''kodex-session'' \<mapsto> demo_text))) =
     (Some demo_record, Window (st(''kodex-session'' \<mapsto> demo_text)))"
proof -
  have "has_prop demo_record ''user''" "has_prop demo_record ''access_token''"
       "\<not> is_expired demo_platform 1000000 (field (Some demo_record) ''expires_at'')"
    by (simp_all add: has_prop_def demo_record_def is_expired_def field_def)
  with load_parsed[of "st(''kodex-session'' \<mapsto> demo_text)" demo_text demo_platform
         demo_record 1000000]
  show ?thesis by simp
qed

lemma demo_load_time [simp]: "load_time demo_readings = 1000000"
  by (simp add: demo_readings_def)

text \<open>The theorem with the session of the examples in the cache and a rejected call, with an
  empty cache and a call that resolves with an error, and with a call that succeeds.\<close>

theorem getCurrentUser_falls_back_witness:
  "getCurrentUser demo_platform demo_readings (Rejects (NetworkError ''offline''))
       (Window [''kodex-session'' \<mapsto> demo_text]) =
     (Inr (Some (JObj [(''id'', JStr ''u1'')])), Window [''kodex-session'' \<mapsto> demo_text]) \<and>
   getCurrentUser demo_platform demo_readings (Resolves js_null (Some ''invalid JWT''))
       (Window Map.empty) =
     (Inr js_null, Window Map.empty) \<and>
   getCurrentUser demo_platform demo_readings (Resolves (Some demo_user) None)
       (Window Map.empty) =
     (Inr (Some demo_user), Window Map.empty)"
proof -
  have a: "getStoredSession demo_platform 1000000 (Window [''kodex-session'' \<mapsto> demo_text]) =
     (Some demo_record, Window [''kodex-session'' \<mapsto> demo_text])"
    by (rule demo_load)
  have b: "getStoredSession demo_platform 1000000 (Window Map.empty) = (js_null, Window Map.empty)"
    by (simp add: load_empty slot_empty_def)
  have c: "field (Some demo_record) ''user'' = Some (JObj [(''id'', JStr ''u1'')])"
    by (simp add: field_def demo_record_def)
  have d: "demo_record \<noteq> JNull" by (simp add: demo_record_def)
  from getCurrentUser_falls_back
         [of demo_platform demo_readings "Rejects (NetworkError ''offline'')"
             "Window [''kodex-session'' \<mapsto> demo_text]" js_null "NetworkError ''offline''" "''''"]
       getCurrentUser_falls_back
         [of demo_platform demo_readings "Resolves js_null (Some ''invalid JWT'')"
             "Window Map.empty" js_null TypeError "''invalid JWT''"]
       getCurrentUser_falls_back
         [of demo_platform demo_readings "Resolves (Some demo_user) None"
             "Window Map.empty" "Some demo_user" TypeError "''''"]
  show ?thesis by (simp add: a b c d)
qed

text \<open>
  C3. In \<^verbatim>\<open>initializeSession\<close>, let the external session read resolve without an error
  and without a session, and let \<^verbatim>\<open>getStoredSession\<close> return a stored session with a
  truthy \<^verbatim>\<open>refresh_token\<close>. If the refresh, called with that token, resolves without an
  error and with a session, this session is returned and written to the cache: the
  session slot holds the text of its record (its six fields and the time of the save),
  the timestamp slot the time of the write, the active flag \<^verbatim>\<open>'true'\<close>. If the refresh
  resolves with an error, \<^verbatim>\<open>null\<close> is returned and the storage is left without the
  session record, the auth key, the auth timestamp and the active flag. If the refresh is
  rejected, the stored session is returned as it was read and the storage is as it was.
\<close>

theorem initializeSession_refresh:
  assumes none: "getSession = Resolves session None" "\<not> truthy session"
    and cached: "fst (getStoredSession P (load_time R) (Window st)) = Some stored"
    and token: "get_prop (Some stored) ''refresh_token'' = Inr (Some token)"
               "truthy (Some token)"
  shows "(refreshSession (JObj [(''refresh_token'', token)]) = Resolves refreshed None \<and>
          truthy refreshed \<longrightarrow>
          initializeSession P R getSession refreshSession (Window st) =
            (Inr refreshed,
             Window (st(''kodex-session'' \<mapsto>
                           JSON_stringify P (savedData refreshed (save_time R)),
                        ''kodex-auth-timestamp'' \<mapsto> toString (stamp_time R),
                        ''kodex-session-active'' \<mapsto> ''true'')))) \<and>
         (refreshSession (JObj [(''refresh_token'', token)]) = Resolves refreshed (Some msg) \<longrightarrow>
          initializeSession P R getSession refreshSession (Window st) =
            (Inr js_null,
             Window (st(''kodex-session'' := None, ''kodex-auth'' := None,
                        ''kodex-auth-timestamp'' := None,
                        ''kodex-session-active'' := None)))) \<and>
         (refreshSession (JObj [(''refresh_token'', token)]) = Rejects x \<longrightarrow>
          initializeSession P R getSession refreshSession (Window st) =
            (Inr (Some stored), Window st))"
proof -
  from token have nn: "stored \<noteq> JNull" by auto
  with cached have L: "getStoredSession P (load_time R) (Window st) = (Some stored, Window st)"
    using load_some[of P "load_time R" "Window st" stored] by simp
  from L have tr: "truthy (Some stored)"
    using load_some[of P "load_time R" "Window st" stored] nn by (auto dest: has_prop_truthy)
  show ?thesis
    using none L tr token
    by (auto simp: initializeSession_def initializeSession_try_def save_truthy clearSession_def
             simp del: truthy.simps)
qed

lemma demo_stamp [simp]: "toString 6 = ''6''"
  by code_simp

lemma demo_load_old:
  "getStoredSession demo_platform 1000000 (Window (demo_storage demo_old_text)) =
     (Some demo_old_record, Window (demo_storage demo_old_text))"
proof -
  have "has_prop demo_old_record ''user''" "has_prop demo_old_record ''access_token''"
       "\<not> is_expired demo_platform 1000000 (field (Some demo_old_record) ''expires_at'')"
    by (simp_all add: has_prop_def demo_old_record_def is_expired_def field_def)
  with load_parsed[of "demo_storage demo_old_text" demo_old_text demo_platform
         demo_old_record 1000000]
  show ?thesis by simp
qed

text \<open>
  The theorem on a storage whose cache holds the older record, with the token \<^verbatim>\<open>rt-0\<close>.
  A service that answers the request with this token, and no other, with the session of
  the examples: the session is returned, the session slot holds its text, the timestamp
  slot the time 6, the flag \<^verbatim>\<open>'true'\<close>. A service that resolves with an error:
  \<^verbatim>\<open>null\<close> is returned and the four slots are gone. A rejected refresh: the older
  record is returned and its text is still in the slot.
\<close>

theorem initializeSession_refresh_witness:
  "fst (getStoredSession demo_platform (load_time demo_readings)
          (Window (demo_storage demo_old_text))) = Some demo_old_record \<and>
   get_prop (Some demo_old_record) ''refresh_token'' = Inr (Some (JStr ''rt-0'')) \<and>
   truthy (Some (JStr ''rt-0'')) \<and>
   fst (initializeSession demo_platform demo_readings (Resolves js_null None) demo_refresh
          (Window (demo_storage demo_old_text))) = Inr (Some demo_session) \<and>
   getItem (snd (initializeSession demo_platform demo_readings (Resolves js_null None)
                   demo_refresh (Window (demo_storage demo_old_text))))
     ''kodex-session'' = Some demo_text \<and>
   getItem (snd (initializeSession demo_platform demo_readings (Resolves js_null None)
                   demo_refresh (Window (demo_storage demo_old_text))))
     ''kodex-auth-timestamp'' = Some ''6'' \<and>
   getItem (snd (initializeSession demo_platform demo_readings (Resolves js_null None)
                   demo_refresh (Window (demo_storage demo_old_text))))
     ''kodex-session-active'' = Some ''true'' \<and>
   fst (initializeSession demo_platform demo_readings (Resolves js_null None)
          demo_refresh_revoked (Window (demo_storage demo_old_text))) = Inr js_null \<and>
   getItem (snd (initializeSession demo_platform demo_readings (Resolves js_null None)
                   demo_refresh_revoked (Window (demo_storage demo_old_text))))
     ''kodex-session'' = None \<and>
   getItem (snd (initializeSession demo_platform demo_readings (Resolves js_null None)
                   demo_refresh_revoked (Window (demo_storage demo_old_text))))
     ''kodex-auth'' = None \<and>
   getItem (snd (initializeSession demo_platform demo_readings (Resolves js_null None)
                   demo_refresh_revoked (Window (demo_storage demo_old_text))))
     ''kodex-auth-timestamp'' = None \<and>
   getItem (snd (initializeSession demo_platform demo_readings (Resolves js_null None)
                   demo_refresh_revoked (Window (demo_storage demo_old_text))))
     ''kodex-session-active'' = None \<and>
   getItem (snd (initializeSession demo_platform demo_readings (Resolves js_null None)
                   demo_refresh_revoked (Window (demo_storage demo_old_text))))
     ''theme'' = Some ''dark'' \<and>
   initializeSession demo_platform demo_readings (Resolves js_null None)
       demo_refresh_offline (Window (demo_storage demo_old_text)) =
     (Inr (Some demo_old_record), Window (demo_storage demo_old_text)) \<and>
   getItem (snd (initializeSession demo_platform demo_readings (Resolves js_null None)
                   demo_refresh_offline (Window (demo_storage demo_old_text))))
     ''kodex-session'' = Some demo_old_text"
proof -
  have c: "fst (getStoredSession demo_platform (load_time demo_readings)
          (Window (demo_storage demo_old_text))) = Some demo_old_record"
    by (simp add: demo_load_old)
  have t: "get_prop (Some demo_old_record) ''refresh_token'' = Inr (Some (JStr ''rt-0''))"
    by (simp add: demo_old_record_def)
  have u: "truthy (Some (JStr ''rt-0''))" by simp
  have n: "\<not> truthy js_null" by simp
  have s: "truthy (Some demo_session)" by (simp add: demo_session_def)
  have r: "save_time demo_readings = 5" "stamp_time demo_readings = 6"
    by (simp_all add: demo_readings_def)
  have q: "demo_refresh (JObj [(''refresh_token'', JStr ''rt-0'')]) =
             Resolves (Some demo_session) None"
          "demo_refresh_revoked (JObj [(''refresh_token'', JStr ''rt-0'')]) =
             Resolves js_null (Some ''refresh token revoked'')"
          "demo_refresh_offline (JObj [(''refresh_token'', JStr ''rt-0'')]) =
             Rejects (NetworkError ''offline'')"
    by (simp_all add: demo_refresh_def demo_refresh_revoked_def demo_refresh_offline_def)
  note th = initializeSession_refresh [OF refl n c t u]
  from th [of demo_refresh "Some demo_session" "''''" TypeError] q s
  have a: "initializeSession demo_platform demo_readings (Resolves js_null None) demo_refresh
             (Window (demo_storage demo_old_text)) =
           (Inr (Some demo_session),
            Window ((demo_storage demo_old_text)
              (''kodex-session'' \<mapsto> demo_text,
               ''kodex-auth-timestamp'' \<mapsto> ''6'',
               ''kodex-session-active'' \<mapsto> ''true'')))"
    by (simp add: r demo_saved)
  from th [of demo_refresh_revoked js_null "''refresh token revoked''" TypeError] q
  have b: "initializeSession demo_platform demo_readings (Resolves js_null None)
             demo_refresh_revoked (Window (demo_storage demo_old_text)) =
           (Inr js_null,
            Window ((demo_storage demo_old_text)
              (''kodex-session'' := None, ''kodex-auth'' := None,
               ''kodex-auth-timestamp'' := None, ''kodex-session-active'' := None)))"
    by simp
  from th [of demo_refresh_offline js_null "''''" "NetworkError ''offline''"] q
  have d: "initializeSession demo_platform demo_readings (Resolves js_null None)
             demo_refresh_offline (Window (demo_storage demo_old_text)) =
           (Inr (Some demo_old_record), Window (demo_storage demo_old_text))"
    by simp
  show ?thesis using c t by (simp add: a b d getItem_def)
qed

lemma load_null_env:
  "fst (getStoredSession P now (Window st)) = js_null \<Longrightarrow>
   snd (getStoredSession P now (Window st)) =
     (if slot_empty st ''kodex-session'' then Window st else clearSession (Window st))"
  using load_cases[of st P now] by (auto dest: has_prop_object)

text \<open>
  C6. \<^verbatim>\<open>updatePassword (newPassword)\<close> is the password block of
  \<^verbatim>\<open>updateProfile\<close> run on \<^verbatim>\<open>newPassword\<close>, for every password, every behaviour of
  the identity service and every environment: the same request with the password alone,
  the same merge of the returned user into the stored session, the same data returned,
  the same error thrown. \<^verbatim>\<open>updateProfile\<close> runs that block exactly when
  \<^verbatim>\<open>updates.password\<close> is truthy, so for every \<^verbatim>\<open>updates\<close> whose password is a
  non-empty string it equals \<^verbatim>\<open>updatePassword\<close> of that password.
\<close>

theorem updatePassword_is_password_branch:
  "updatePassword P R updateUser newPassword e =
     updateProfile_password P R updateUser (Some (JStr newPassword)) e \<and>
   (get_prop (Some updates) ''password'' = Inr (Some (JStr newPassword)) \<and> newPassword \<noteq> []
      \<longrightarrow> updateProfile P R updateUser updates e =
            updatePassword P R updateUser newPassword e) \<and>
   (newPassword \<noteq> []
      \<longrightarrow> updateProfile P R updateUser (JObj [(''password'', JStr newPassword)]) e =
            updatePassword P R updateUser newPassword e)"
  by (simp add: updatePassword_def updateProfile_password_def updateProfile_def)

text \<open>The theorem with the password \<^verbatim>\<open>pw\<close>, alone and beside another field.\<close>

theorem updatePassword_is_password_branch_witness:
  "get_prop (Some (JObj [(''theme'', JStr ''dark''), (''password'', JStr ''pw'')])) ''password'' =
     Inr (Some (JStr ''pw'')) \<and> ''pw'' \<noteq> [] \<and>
   updateProfile demo_platform demo_readings demo_updateUser
       (JObj [(''theme'', JStr ''dark''), (''password'', JStr ''pw'')]) (Window Map.empty) =
     updatePassword demo_platform demo_readings demo_updateUser
       ''pw'' (Window Map.empty) \<and>
   updateProfile demo_platform demo_readings demo_updateUser
       (JObj [(''password'', JStr ''pw'')]) (Window Map.empty) =
     updatePassword demo_platform demo_readings demo_updateUser
       ''pw'' (Window Map.empty)"
  using updatePassword_is_password_branch
          [of demo_platform demo_readings demo_updateUser "''pw''"
              "Window Map.empty" "JObj [(''theme'', JStr ''dark''), (''password'', JStr ''pw'')]"]
  by simp

lemma split0_before_at:
  "CHR ''@'' \<notin> set (split0 email)"
  "email = split0 email \<or> (\<exists>rest. email = split0 email @ CHR ''@'' # rest)"
proof -
  show "CHR ''@'' \<notin> set (split0 email)"
    unfolding split0_def by (auto dest: set_takeWhileD)
  show "email = split0 email \<or> (\<exists>rest. email = split0 email @ CHR ''@'' # rest)"
  proof (cases "dropWhile (\<lambda>c. c \<noteq> CHR ''@'') email")
    case Nil
    then have "email = split0 email"
      unfolding split0_def by (metis append_Nil2 takeWhile_dropWhile_id)
    then show ?thesis by (rule disjI1)
  next
    case (Cons c rest)
    then have "c = CHR ''@''" using hd_dropWhile[of "\<lambda>c. c \<noteq> CHR ''@''" email] by auto
    with Cons have "email = split0 email @ CHR ''@'' # rest"
      unfolding split0_def by (metis takeWhile_dropWhile_id)
    then show ?thesis by blast
  qed
qed

text \<open>
  C8 (as amended). The display name of a sign-up is the name given when that is a
  non-empty string, and the part of the email before its first \<^verbatim>\<open>@\<close> when no name or
  an empty one is given. When \<^verbatim>\<open>encodeURIComponent\<close> throws on that name, \<^verbatim>\<open>signUp\<close>
  throws the same error, whatever the identity service would answer, and leaves the
  environment alone: no request is made. When it returns the encoded name, the request of
  \<^verbatim>\<open>signUp\<close> carries the email, the password and, under \<^verbatim>\<open>options.data\<close>, the
  metadata: the display name as \<^verbatim>\<open>full_name\<close>, the \<^verbatim>\<open>avatar_url\<close> generated from
  the encoded name, empty profile texts, email notifications and security alerts on,
  marketing emails and two-factor authentication off, the theme \<^verbatim>\<open>system\<close>, the
  language \<^verbatim>\<open>en\<close>, the resolved time zone, the date format \<^verbatim>\<open>MM/DD/YYYY\<close> and the
  time of creation. What \<^verbatim>\<open>signUp\<close> then does is what the identity service answers to
  that request: a rejection and an error of the envelope are thrown, and the data are
  returned, after the save of their session when they hold one.
\<close>

theorem signUp_metadata_defaults:
  "(\<forall>n. fullName = Some n \<and> n \<noteq> [] \<longrightarrow> display_name email fullName = n) \<and>
   (fullName = None \<or> fullName = Some [] \<longrightarrow> display_name email fullName = split0 email) \<and>
   CHR ''@'' \<notin> set (split0 email) \<and>
   (email = split0 email \<or> (\<exists>rest. email = split0 email @ CHR ''@'' # rest)) \<and>
   (\<forall>x. encodeURIComponent P (display_name email fullName) = Inl x \<longrightarrow>
      signUp_request P R email password fullName = Inl x \<and>
      signUp P R signUpCall email password fullName e = (Inl x, e)) \<and>
   (\<forall>encoded. encodeURIComponent P (display_name email fullName) = Inr encoded \<longrightarrow>
      signUp_request P R email password fullName =
        Inr (JObj
          [(''email'', JStr email),
           (''password'', JStr password),
           (''options'', JObj [(''data'', JObj
              [(''full_name'', JStr (display_name email fullName)),
               (''avatar_url'',
                  JStr (''https://ui-avatars.com/api/?name='' @ encoded
                        @ ''&size=200&background=random'')),
               (''bio'', JStr []),
               (''location'', JStr []),
               (''website'', JStr []),
               (''company'', JStr []),
               (''twitter_username'', JStr []),
               (''github_username'', JStr []),
               (''email_notifications'', JBool True),
               (''marketing_emails'', JBool False),
               (''security_alerts'', JBool True),
               (''two_factor_enabled'', JBool False),
               (''theme'', JStr ''system''),
               (''language'', JStr ''en''),
               (''timezone'', JStr (time_zone R)),
               (''date_format'', JStr ''MM/DD/YYYY''),
               (''created_at'', JStr (iso_time R))])])])) \<and>
   (\<forall>request. signUp_request P R email password fullName = Inr request \<longrightarrow>
      (\<forall>x. signUpCall request = Rejects x \<longrightarrow>
         signUp P R signUpCall email password fullName e = (Inl x, e)) \<and>
      (\<forall>data msg. signUpCall request = Resolves data (Some msg) \<longrightarrow>
         signUp P R signUpCall email password fullName e = (Inl (AuthError msg), e)) \<and>
      (\<forall>data. signUpCall request = Resolves data None \<longrightarrow>
         signUp P R signUpCall email password fullName e =
           (Inr data,
            if truthy (data_session data)
            then saveSession P (save_time R) (stamp_time R) (data_session data) e
            else e)))"
proof -
  have given: "\<forall>n. fullName = Some n \<and> n \<noteq> [] \<longrightarrow> display_name email fullName = n"
    by (simp add: display_name_def)
  have fallback: "fullName = None \<or> fullName = Some [] \<longrightarrow>
                  display_name email fullName = split0 email"
    by (auto simp: display_name_def)
  have throws: "\<forall>x. encodeURIComponent P (display_name email fullName) = Inl x \<longrightarrow>
      signUp_request P R email password fullName = Inl x \<and>
      signUp P R signUpCall email password fullName e = (Inl x, e)"
    by (simp add: signUp_def signUp_request_def signUp_metadata_def)
  have request: "\<forall>encoded. encodeURIComponent P (display_name email fullName) = Inr encoded \<longrightarrow>
      signUp_request P R email password fullName =
        Inr (JObj
          [(''email'', JStr email),
           (''password'', JStr password),
           (''options'', JObj [(''data'', JObj
              [(''full_name'', JStr (display_name email fullName)),
               (''avatar_url'',
                  JStr (''https://ui-avatars.com/api/?name='' @ encoded
                        @ ''&size=200&background=random'')),
               (''bio'', JStr []),
               (''location'', JStr []),
               (''website'', JStr []),
               (''company'', JStr []),
               (''twitter_username'', JStr []),
               (''github_username'', JStr []),
               (''email_notifications'', JBool True),
               (''marketing_emails'', JBool False),
               (''security_alerts'', JBool True),
               (''two_factor_enabled'', JBool False),
               (''theme'', JStr ''system''),
               (''language'', JStr ''en''),
               (''timezone'', JStr (time_zone R)),
               (''date_format'', JStr ''MM/DD/YYYY''),
               (''created_at'', JStr (iso_time R))])])])"
    by (simp add: signUp_request_def signUp_metadata_def)
  have answers: "\<forall>request. signUp_request P R email password fullName = Inr request \<longrightarrow>
      (\<forall>x. signUpCall request = Rejects x \<longrightarrow>
         signUp P R signUpCall email password fullName e = (Inl x, e)) \<and>
      (\<forall>data msg. signUpCall request = Resolves data (Some msg) \<longrightarrow>
         signUp P R signUpCall email password fullName e = (Inl (AuthError msg), e)) \<and>
      (\<forall>data. signUpCall request = Resolves data None \<longrightarrow>
         signUp P R signUpCall email password fullName e =
           (Inr data,
            if truthy (data_session data)
            then saveSession P (save_time R) (stamp_time R) (data_session data) e
            else e))"
    by (simp add: signUp_def del: truthy.simps)
  show ?thesis
    by (intro conjI given fallback split0_before_at throws request answers)
qed

lemma demo_names [simp]:
  "split0 ''ada@example.com'' = ''ada''"
  "encodeURIComponent demo_platform ''ada'' = Inr ''ada''"
  "encodeURIComponent demo_platform ''Ada'' = Inr ''Ada''"
  "split0 demo_surrogate_email = [CHR 0xED, CHR 0xA0, CHR 0x80]"
  "encodeURIComponent demo_platform [CHR 0xED, CHR 0xA0, CHR 0x80] = Inl URIError"
  by (simp_all add: split0_def demo_platform_def demo_surrogate_email_def)

text \<open>
  The theorem for the email \<^verbatim>\<open>ada@example.com\<close>, with services that answer one request
  and no other. Without a name the service that expects \<^verbatim>\<open>ada\<close> as \<^verbatim>\<open>full_name\<close> and
  in the \<^verbatim>\<open>avatar_url\<close> is the one that is answered; with the name \<^verbatim>\<open>Ada\<close> it is
  the service that expects \<^verbatim>\<open>Ada\<close>. The error of a service is thrown; and for the
  email with the lone surrogate the URIError is thrown and the storage is as it was.
\<close>

theorem signUp_metadata_defaults_witness:
  "display_name ''ada@example.com'' None = ''ada'' \<and>
   display_name ''ada@example.com'' (Some []) = ''ada'' \<and>
   display_name ''ada@example.com'' (Some ''Ada'') = ''Ada'' \<and>
   signUp_request demo_platform demo_readings ''ada@example.com'' ''pw'' None =
     Inr (demo_signUp_request ''ada'') \<and>
   signUp demo_platform demo_readings (demo_signUp ''ada'') ''ada@example.com'' ''pw'' None
       (Window Map.empty) =
     (Inr \<lparr>data_user = Some demo_user, data_session = js_null\<rparr>, Window Map.empty) \<and>
   signUp demo_platform demo_readings (demo_signUp ''Ada'') ''ada@example.com'' ''pw'' None
       (Window Map.empty) =
     (Inl (NetworkError ''unexpected request''), Window Map.empty) \<and>
   signUp demo_platform demo_readings (demo_signUp ''Ada'') ''ada@example.com'' ''pw''
       (Some ''Ada'') (Window Map.empty) =
     (Inr \<lparr>data_user = Some demo_user, data_session = js_null\<rparr>, Window Map.empty) \<and>
   signUp demo_platform demo_readings demo_signUp_taken ''ada@example.com'' ''pw'' None
       (Window Map.empty) =
     (Inl (AuthError ''User already registered''), Window Map.empty) \<and>
   encodeURIComponent demo_platform (display_name demo_surrogate_email None) = Inl URIError \<and>
   signUp demo_platform demo_readings demo_signUp_always demo_surrogate_email ''pw'' None
       (Window (demo_storage demo_text)) =
     (Inl URIError, Window (demo_storage demo_text))"
proof -
  note t4 = signUp_metadata_defaults
              [of None "''ada@example.com''" demo_platform demo_readings "''pw''"
                  demo_signUp_taken "Window Map.empty"]
  note t5 = signUp_metadata_defaults
              [of None demo_surrogate_email demo_platform demo_readings "''pw''"
                  demo_signUp_always "Window (demo_storage demo_text)"]
  note t0 = signUp_metadata_defaults
              [of None "''ada@example.com''" demo_platform demo_readings "''pw''"
                  "demo_signUp ''ada''" "Window Map.empty"]
  note t1 = signUp_metadata_defaults
              [of None "''ada@example.com''" demo_platform demo_readings "''pw''"
                  "demo_signUp ''Ada''" "Window Map.empty"]
  note t2 = signUp_metadata_defaults
              [of "Some ''Ada''" "''ada@example.com''" demo_platform demo_readings "''pw''"
                  "demo_signUp ''Ada''" "Window Map.empty"]
  note t3 = signUp_metadata_defaults
              [of "Some []" "''ada@example.com''" demo_platform demo_readings "''pw''"
                  "demo_signUp ''ada''" "Window Map.empty"]
  have n0: "display_name ''ada@example.com'' None = ''ada''" using t0 by simp
  have n3: "display_name ''ada@example.com'' (Some []) = ''ada''" using t3 by simp
  have n2: "display_name ''ada@example.com'' (Some ''Ada'') = ''Ada''" using t2 by simp
  have r0: "signUp_request demo_platform demo_readings ''ada@example.com'' ''pw'' None =
              Inr (demo_signUp_request ''ada'')"
    using t0 by (simp add: n0 demo_signUp_request_def demo_readings_def)
  have r2: "signUp_request demo_platform demo_readings ''ada@example.com'' ''pw'' (Some ''Ada'') =
              Inr (demo_signUp_request ''Ada'')"
    using t2 by (simp add: n2 demo_signUp_request_def demo_readings_def)
  have d: "demo_signUp_request ''ada'' \<noteq> demo_signUp_request ''Ada''"
    by (simp add: demo_signUp_request_def)
  have a0: "signUp demo_platform demo_readings (demo_signUp ''ada'') ''ada@example.com'' ''pw''
              None (Window Map.empty) =
            (Inr \<lparr>data_user = Some demo_user, data_session = js_null\<rparr>, Window Map.empty)"
    using t0 by (simp add: r0 demo_signUp_def)
  have a1: "signUp demo_platform demo_readings (demo_signUp ''Ada'') ''ada@example.com'' ''pw''
              None (Window Map.empty) =
            (Inl (NetworkError ''unexpected request''), Window Map.empty)"
    using t1 d by (simp add: r0 demo_signUp_def)
  have a2: "signUp demo_platform demo_readings (demo_signUp ''Ada'') ''ada@example.com'' ''pw''
              (Some ''Ada'') (Window Map.empty) =
            (Inr \<lparr>data_user = Some demo_user, data_session = js_null\<rparr>, Window Map.empty)"
    using t2 by (simp add: r2 demo_signUp_def)
  have a4: "signUp demo_platform demo_readings demo_signUp_taken ''ada@example.com'' ''pw''
              None (Window Map.empty) =
            (Inl (AuthError ''User already registered''), Window Map.empty)"
    using t4 by (simp add: r0 demo_signUp_taken_def)
  have n5: "display_name demo_surrogate_email None = [CHR 0xED, CHR 0xA0, CHR 0x80]"
    using t5 by simp
  have e5: "encodeURIComponent demo_platform (display_name demo_surrogate_email None) =
              Inl URIError"
    by (simp add: n5)
  have a5: "signUp demo_platform demo_readings demo_signUp_always demo_surrogate_email ''pw''
              None (Window (demo_storage demo_text)) =
            (Inl URIError, Window (demo_storage demo_text))"
    using t5 e5 by simp
  show ?thesis by (simp only: n0 n2 n3 r0 a0 a1 a2 a4 e5 a5 simp_thms)
qed

text \<open>
  The property as first stated, that \<^verbatim>\<open>signUp\<close> sends the payload for every email, fails
  for an email whose part before the \<^verbatim>\<open>@\<close> is a lone surrogate, when no name is
  given: \<^verbatim>\<open>encodeURIComponent\<close> throws on that name, and \<^verbatim>\<open>signUp\<close> throws the
  URIError although the identity service would answer every request with a user.
\<close>

theorem signUp_surrogate_no_request:
  "display_name demo_surrogate_email None = [CHR 0xED, CHR 0xA0, CHR 0x80] \<and>
   encodeURIComponent demo_platform [CHR 0xED, CHR 0xA0, CHR 0x80] = Inl URIError \<and>
   signUp_request demo_platform demo_readings demo_surrogate_email ''pw'' None = Inl URIError \<and>
   signUp demo_platform demo_readings demo_signUp_always demo_surrogate_email ''pw'' None
       (Window Map.empty) =
     (Inl URIError, Window Map.empty)"
  by (simp add: signUp_def signUp_request_def signUp_metadata_def display_name_def)

lemma update_tail:
  assumes "fst (getStoredSession P (load_time R) (Window st)) = js_null"
  shows "(if truthy user then
            (case getStoredSession P (load_time R) (Window st) of
               (storedSession, e1) \<Rightarrow>
                 if truthy storedSession then
                   (case set_prop storedSession ''user'' user of
                      Inl x \<Rightarrow> (Inl x, e1)
                    | Inr updated \<Rightarrow>
                        (Inr user, saveSession P (save_time R) (stamp_time R) (Some updated) e1))
                 else (Inr user, e1))
          else (Inr user, Window st)) =
         (Inr user, if truthy user \<and> \<not> slot_empty st ''kodex-session''
                    then clearSession (Window st) else Window st)"
proof -
  from assms load_null_env[of P "load_time R" st]
  have "getStoredSession P (load_time R) (Window st) =
          (js_null, if slot_empty st ''kodex-session'' then Window st else clearSession (Window st))"
    by (simp add: prod_eq_iff)
  then show ?thesis by simp
qed


text \<open>
  C9 (as amended). Let \<^verbatim>\<open>getStoredSession\<close> return \<^verbatim>\<open>null\<close> at the time of the update
  (no valid stored session). Then a successful \<^verbatim>\<open>updatePassword\<close>, and a successful
  \<^verbatim>\<open>updateProfile\<close> in its password block or in its metadata part, return the data of
  the identity service and write no slot: every slot is afterwards as it was or absent.
  The storage is left as it was when the data holds no user or when the session slot is
  absent or holds the empty string; when the data holds a user and the slot holds a
  non-empty record that is invalid or expired, the four session slots are removed.
\<close>

theorem update_without_stored_session:
  assumes "fst (getStoredSession P (load_time R) (Window st)) = js_null"
  shows "(updateUser (JObj [(''password'', JStr newPassword)]) = Resolves user None \<longrightarrow>
            updatePassword P R updateUser newPassword (Window st) =
              (Inr user, if truthy user \<and> \<not> slot_empty st ''kodex-session''
                         then clearSession (Window st) else Window st)) \<and>
         (get_prop (Some updates) ''password'' = Inr (Some password) \<and> truthy (Some password) \<and>
          updateUser (JObj [(''password'', password)]) = Resolves user None \<longrightarrow>
            updateProfile P R updateUser updates (Window st) =
              (Inr user, if truthy user \<and> \<not> slot_empty st ''kodex-session''
                         then clearSession (Window st) else Window st)) \<and>
         (get_prop (Some updates) ''password'' = Inr falsy \<and> \<not> truthy falsy \<and>
          metadata_request R updates = Inr request \<and>
          updateUser request = Resolves user None \<longrightarrow>
            updateProfile P R updateUser updates (Window st) =
              (Inr user, if truthy user \<and> \<not> slot_empty st ''kodex-session''
                         then clearSession (Window st) else Window st)) \<and>
         (\<forall>k. getItem (if truthy user \<and> \<not> slot_empty st ''kodex-session''
                        then clearSession (Window st) else Window st) k = None \<or>
              getItem (if truthy user \<and> \<not> slot_empty st ''kodex-session''
                        then clearSession (Window st) else Window st) k = st k)"
proof (intro conjI impI allI)
  assume "updateUser (JObj [(''password'', JStr newPassword)]) = Resolves user None"
  then show "updatePassword P R updateUser newPassword (Window st) =
              (Inr user, if truthy user \<and> \<not> slot_empty st ''kodex-session''
                         then clearSession (Window st) else Window st)"
    by (simp add: updatePassword_def update_tail[OF assms] del: truthy.simps)
next
  assume "get_prop (Some updates) ''password'' = Inr (Some password) \<and> truthy (Some password) \<and>
          updateUser (JObj [(''password'', password)]) = Resolves user None"
  then show "updateProfile P R updateUser updates (Window st) =
              (Inr user, if truthy user \<and> \<not> slot_empty st ''kodex-session''
                         then clearSession (Window st) else Window st)"
    by (simp add: updateProfile_def updateProfile_password_def update_tail[OF assms]
             del: truthy.simps)
next
  assume "get_prop (Some updates) ''password'' = Inr falsy \<and> \<not> truthy falsy \<and>
          metadata_request R updates = Inr request \<and>
          updateUser request = Resolves user None"
  then show "updateProfile P R updateUser updates (Window st) =
              (Inr user, if truthy user \<and> \<not> slot_empty st ''kodex-session''
                         then clearSession (Window st) else Window st)"
    by (simp add: updateProfile_def updateProfile_metadata_def update_tail[OF assms]
             del: truthy.simps)
next
  fix k
  show "getItem (if truthy user \<and> \<not> slot_empty st ''kodex-session''
                 then clearSession (Window st) else Window st) k = None \<or>
        getItem (if truthy user \<and> \<not> slot_empty st ''kodex-session''
                 then clearSession (Window st) else Window st) k = st k"
    by (simp add: getItem_def clearSession_def)
qed


lemma demo_load_expired:
  "getStoredSession demo_platform 3000000
     (Window [''kodex-session'' \<mapsto> demo_text, ''kodex-session-active'' \<mapsto> ''true'']) =
   (js_null,
    clearSession (Window [''kodex-session'' \<mapsto> demo_text, ''kodex-session-active'' \<mapsto> ''true'']))"
proof -
  have "is_expired demo_platform 3000000 (field (Some demo_record) ''expires_at'')"
    by (simp add: is_expired_def field_def demo_record_def)
  with load_parsed[of "[''kodex-session'' \<mapsto> demo_text, ''kodex-session-active'' \<mapsto> ''true'']"
         demo_text demo_platform demo_record 3000000]
  show ?thesis by simp
qed

text \<open>The theorem with an empty storage, which the three updates leave empty, and with an
  expired record in the cache, which a password update removes.\<close>

theorem update_without_stored_session_witness:
  "fst (getStoredSession demo_platform (load_time demo_readings) (Window Map.empty)) = js_null \<and>
   updatePassword demo_platform demo_readings demo_updateUser
       ''pw'' (Window Map.empty) =
     (Inr (Some demo_user), Window Map.empty) \<and>
   updateProfile demo_platform demo_readings demo_updateUser
       (JObj [(''password'', JStr ''pw'')]) (Window Map.empty) =
     (Inr (Some demo_user), Window Map.empty) \<and>
   metadata_request demo_readings (JObj [(''theme'', JStr ''dark'')]) =
     Inr (JObj [(''data'', JObj [(''theme'', JStr ''dark''),
                                (''updated_at'', JStr ''1970-01-01T00:00:00.005Z'')])]) \<and>
   updateProfile demo_platform demo_readings demo_updateUser
       (JObj [(''theme'', JStr ''dark'')]) (Window Map.empty) =
     (Inr (Some demo_user), Window Map.empty) \<and>
   fst (getStoredSession demo_platform (load_time (demo_readings\<lparr>load_time := 3000000\<rparr>))
          (Window [''kodex-session'' \<mapsto> demo_text, ''kodex-session-active'' \<mapsto> ''true''])) =
     js_null \<and>
   updatePassword demo_platform (demo_readings\<lparr>load_time := 3000000\<rparr>)
       demo_updateUser ''pw''
       (Window [''kodex-session'' \<mapsto> demo_text, ''kodex-session-active'' \<mapsto> ''true'']) =
     (Inr (Some demo_user),
      clearSession (Window [''kodex-session'' \<mapsto> demo_text, ''kodex-session-active'' \<mapsto> ''true'']))"
proof -
  have l0: "fst (getStoredSession demo_platform (load_time demo_readings) (Window Map.empty)) = js_null"
    by (simp add: load_empty slot_empty_def)
  have l1: "fst (getStoredSession demo_platform (load_time (demo_readings\<lparr>load_time := 3000000\<rparr>))
          (Window [''kodex-session'' \<mapsto> demo_text, ''kodex-session-active'' \<mapsto> ''true''])) =
     js_null"
    by (simp add: demo_load_expired)
  have m: "metadata_request demo_readings (JObj [(''theme'', JStr ''dark'')]) =
     Inr (JObj [(''data'', JObj [(''theme'', JStr ''dark''),
                                (''updated_at'', JStr ''1970-01-01T00:00:00.005Z'')])])"
    by (simp add: metadata_request_def demo_readings_def)
  have g: "get_prop (Some (JObj [(''theme'', JStr ''dark'')])) ''password'' = Inr js_undefined"
    by simp
  note t0 = update_without_stored_session [OF l0,
      of demo_updateUser "''pw''" "Some demo_user"]
  from t0 [of "JObj [(''password'', JStr ''pw'')]" "JStr ''pw''" js_undefined JNull]
  have a: "updatePassword demo_platform demo_readings demo_updateUser
       ''pw'' (Window Map.empty) = (Inr (Some demo_user), Window Map.empty)"
    "updateProfile demo_platform demo_readings demo_updateUser
       (JObj [(''password'', JStr ''pw'')]) (Window Map.empty) =
     (Inr (Some demo_user), Window Map.empty)"
    by (simp_all add: slot_empty_def)
  from t0 [of "JObj [(''theme'', JStr ''dark'')]" JNull js_undefined
              "JObj [(''data'', JObj [(''theme'', JStr ''dark''),
                                (''updated_at'', JStr ''1970-01-01T00:00:00.005Z'')])]"] m g
  have b: "updateProfile demo_platform demo_readings demo_updateUser
       (JObj [(''theme'', JStr ''dark'')]) (Window Map.empty) =
     (Inr (Some demo_user), Window Map.empty)"
    by (simp add: slot_empty_def)
  from update_without_stored_session [OF l1,
      of demo_updateUser "''pw''" "Some demo_user"
         JNull JNull js_undefined JNull]
  have c: "updatePassword demo_platform (demo_readings\<lparr>load_time := 3000000\<rparr>)
       demo_updateUser ''pw''
       (Window [''kodex-session'' \<mapsto> demo_text, ''kodex-session-active'' \<mapsto> ''true'']) =
     (Inr (Some demo_user),
      clearSession (Window [''kodex-session'' \<mapsto> demo_text, ''kodex-session-active'' \<mapsto> ''true'']))"
    by (simp add: slot_empty_def)
  from l0 l1 m a b c show ?thesis by (simp only: simp_thms)
qed

text \<open>
  The property as first stated, that a successful update with no valid stored session
  leaves every slot as it was, fails when the cache holds an expired record: the update
  returns the data of the service, and the session record and the active flag that were
  in the storage are gone.
\<close>

theorem update_clears_expired_session:
  "fst (getStoredSession demo_platform 3000000
          (Window [''kodex-session'' \<mapsto> demo_text, ''kodex-session-active'' \<mapsto> ''true''])) =
     js_null \<and>
   fst (updatePassword demo_platform (demo_readings\<lparr>load_time := 3000000\<rparr>)
          demo_updateUser ''pw''
          (Window [''kodex-session'' \<mapsto> demo_text, ''kodex-session-active'' \<mapsto> ''true''])) =
     Inr (Some demo_user) \<and>
   getItem (Window [''kodex-session'' \<mapsto> demo_text, ''kodex-session-active'' \<mapsto> ''true''])
     ''kodex-session-active'' = Some ''true'' \<and>
   getItem (snd (updatePassword demo_platform (demo_readings\<lparr>load_time := 3000000\<rparr>)
          demo_updateUser ''pw''
          (Window [''kodex-session'' \<mapsto> demo_text, ''kodex-session-active'' \<mapsto> ''true''])))
     ''kodex-session-active'' = None \<and>
   getItem (Window [''kodex-session'' \<mapsto> demo_text, ''kodex-session-active'' \<mapsto> ''true''])
     ''kodex-session'' = Some demo_text \<and>
   getItem (snd (updatePassword demo_platform (demo_readings\<lparr>load_time := 3000000\<rparr>)
          demo_updateUser ''pw''
          (Window [''kodex-session'' \<mapsto> demo_text, ''kodex-session-active'' \<mapsto> ''true''])))
     ''kodex-session'' = None"
  by (simp add: updatePassword_def demo_load_expired getItem_def clearSession_def)

end
